theory Spec2Isabelle
  imports Complex_Main
begin

section \<open>The persistence gateway\<close>

text \<open>
  The application is a set of React page components that talk to a hosted relational
  store. The tables and their key constraints are those of the SQL migrations; the rows
  keep the columns the client reads or writes. A UUID is kept as the string the client
  handles.
\<close>

type_synonym uuid = string

datatype direction = Left | Right

text \<open>The \<open>action\<close> column of \<open>swipe_interactions\<close>: a swipe direction, or \<open>purchased\<close>.\<close>

datatype action = Swiped direction | Purchased

record product =
  prod_id :: uuid
  name :: "string option"
  description :: "string option"
  price :: rat
  image_url :: "string option"

record cart_item =
  cart_id :: uuid
  cart_user_id :: uuid
  cart_product_id :: uuid
  quantity :: int

record saved_item =
  saved_id :: uuid
  saved_user_id :: uuid
  saved_product_id :: uuid

record interaction =
  user_id :: uuid
  product_id :: uuid
  action :: action

record database =
  cart_items :: "cart_item list"
  saved_items :: "saved_item list"
  swipe_interactions :: "interaction list"

text \<open>
  A request either applies or comes back with an error and leaves the tables as they
  were. \<open>Rejected\<close> stands for every refusal the client cannot foresee (network,
  authorization policy, foreign key, check constraint): whether it happens is an input of
  the model, a flag per request. \<open>Duplicate_key\<close> is the refusal the schema decides:
  the primary key \<open>id\<close> and \<open>UNIQUE(user_id, product_id)\<close> on \<open>cart_items\<close> and on
  \<open>saved_items\<close>. A write changes the store of the model; what a select for display
  returns is an input of the handler that issues it.
\<close>

datatype gateway_error = Rejected | Duplicate_key

definition db_insert_interaction ::
  "bool \<Rightarrow> interaction \<Rightarrow> database \<Rightarrow> gateway_error option \<times> database" where
  "db_insert_interaction rejected row db =
     (if rejected then (Some Rejected, db)
      else (None, db\<lparr>swipe_interactions := swipe_interactions db @ [row]\<rparr>))"

definition cart_conflict :: "cart_item \<Rightarrow> cart_item list \<Rightarrow> bool" where
  "cart_conflict row rows =
     list_ex (\<lambda>c. cart_id c = cart_id row \<or>
                  (cart_user_id c = cart_user_id row \<and> cart_product_id c = cart_product_id row)) rows"

definition db_insert_cart_item ::
  "bool \<Rightarrow> cart_item \<Rightarrow> database \<Rightarrow> gateway_error option \<times> database" where
  "db_insert_cart_item rejected row db =
     (if rejected then (Some Rejected, db)
      else if cart_conflict row (cart_items db) then (Some Duplicate_key, db)
      else (None, db\<lparr>cart_items := cart_items db @ [row]\<rparr>))"

definition saved_conflict :: "saved_item \<Rightarrow> saved_item list \<Rightarrow> bool" where
  "saved_conflict row rows =
     list_ex (\<lambda>s. saved_id s = saved_id row \<or>
                  (saved_user_id s = saved_user_id row \<and> saved_product_id s = saved_product_id row)) rows"

definition db_insert_saved_item ::
  "bool \<Rightarrow> saved_item \<Rightarrow> database \<Rightarrow> gateway_error option \<times> database" where
  "db_insert_saved_item rejected row db =
     (if rejected then (Some Rejected, db)
      else if saved_conflict row (saved_items db) then (Some Duplicate_key, db)
      else (None, db\<lparr>saved_items := saved_items db @ [row]\<rparr>))"

text \<open>\<open>select("id").eq("user_id", u).eq("product_id", p).limit(1)\<close>; \<open>data\<close> is null on an error.\<close>

definition db_select_cart_ids ::
  "bool \<Rightarrow> uuid \<Rightarrow> uuid \<Rightarrow> database \<Rightarrow> uuid list option \<times> database" where
  "db_select_cart_ids rejected u p db =
     (if rejected then (None, db)
      else (Some (take 1 (map cart_id
              (filter (\<lambda>c. cart_user_id c = u \<and> cart_product_id c = p) (cart_items db)))), db))"

text \<open>\<open>delete().eq("user_id", u).eq("product_id", p)\<close> on \<open>saved_items\<close>.\<close>

definition db_delete_saved_items ::
  "bool \<Rightarrow> uuid \<Rightarrow> uuid \<Rightarrow> database \<Rightarrow> gateway_error option \<times> database" where
  "db_delete_saved_items rejected u p db =
     (if rejected then (Some Rejected, db)
      else (None, db\<lparr>saved_items :=
              filter (\<lambda>s. \<not> (saved_user_id s = u \<and> saved_product_id s = p)) (saved_items db)\<rparr>))"

section \<open>Page components\<close>

text \<open>
  Every page holds the session (here the signed-in user's id, or \<open>None\<close>). The model
  threads the remote store through the handlers and keeps the effects a handler issues,
  in order: gateway requests, the update of the swiped set, notifications, console
  warnings and navigation. Notification titles are kept without their emoji. A handler
  is asynchronous and awaits each request in turn; the model runs it to its end before
  the next event, one user gesture at a time.
\<close>

datatype request =
    Insert_interaction interaction
  | Select_cart_item uuid uuid
  | Insert_cart_item uuid uuid int
  | Upsert_cart_item uuid uuid int
  | Delete_saved_items uuid uuid
  | Insert_saved_item uuid uuid
  | Upsert_saved_item uuid uuid
  | Delete_saved_item_by_id uuid
  | Delete_cart_items uuid
  | Select_saved_items
  | Select_products_in "uuid list"
  | Select_products

datatype effect =
    Set_swiped uuid
  | Request request
  | Toast string
  | Navigate string
  | Prevent_default
  | Scroll_snap string
  | Console_warn string

record page =
  store :: database
  effects :: "effect list"
  session :: "uuid option"

definition call ::
  "request \<Rightarrow> (database \<Rightarrow> 'r \<times> database) \<Rightarrow> 'a page_scheme \<Rightarrow> 'r \<times> 'a page_scheme" where
  "call q f st =
     (let (res, db) = f (store st)
      in (res, st\<lparr>store := db, effects := effects st @ [Request q]\<rparr>))"

definition emit :: "effect \<Rightarrow> 'a page_scheme \<Rightarrow> 'a page_scheme" where
  "emit e st = st\<lparr>effects := effects st @ [e]\<rparr>"

definition toast :: "string \<Rightarrow> 'a page_scheme \<Rightarrow> 'a page_scheme" where
  "toast title st = emit (Toast title) st"

definition navigate :: "string \<Rightarrow> 'a page_scheme \<Rightarrow> 'a page_scheme" where
  "navigate route st = emit (Navigate route) st"

definition console_warn :: "string \<Rightarrow> 'a page_scheme \<Rightarrow> 'a page_scheme" where
  "console_warn msg st = emit (Console_warn msg) st"

subsection \<open>ProductCard\<close>

text \<open>
  \<open>handleDragEnd\<close> of the card with the properties \<open>id\<close> and \<open>onSwipe\<close>; \<open>offset_x\<close> is
  \<open>info.offset.x\<close>. The callback is a parameter, as in the component.
\<close>

definition handleDragEnd ::
  "(uuid \<Rightarrow> direction \<Rightarrow> 's \<Rightarrow> 's) \<Rightarrow> uuid \<Rightarrow> real \<Rightarrow> 's \<Rightarrow> 's" where
  "handleDragEnd onSwipe ident offset_x s =
     (if \<bar>offset_x\<bar> > 100
      then (let direction = (if offset_x > 0 then Right else Left) in onSwipe ident direction s)
      else s)"

text \<open>The earlier revision of the card calls \<open>onSwipe(direction)\<close>, without the id.\<close>

definition handleDragEnd_unkeyed :: "(direction \<Rightarrow> 's \<Rightarrow> 's) \<Rightarrow> real \<Rightarrow> 's \<Rightarrow> 's" where
  "handleDragEnd_unkeyed onSwipe offset_x s =
     (if \<bar>offset_x\<bar> > 100
      then (let direction = (if offset_x > 0 then Right else Left) in onSwipe direction s)
      else s)"

subsection \<open>Swipe page\<close>

record swipe_page = page +
  products :: "product list"
  swipedProducts :: "uuid set"

text \<open>The gateway's replies to the requests of one \<open>handleSwipe\<close>.\<close>

record swipe_replies =
  log_rejected :: bool
  lookup_rejected :: bool
  remove_rejected :: bool
  write_rejected :: bool
  new_id :: uuid

definition handleSwipe :: "swipe_replies \<Rightarrow> uuid \<Rightarrow> direction \<Rightarrow> swipe_page \<Rightarrow> swipe_page" where
  "handleSwipe r productId direction st =
     (case session st of
        None \<Rightarrow> st
      | Some uid \<Rightarrow>
          let st1 = st\<lparr>swipedProducts := insert productId (swipedProducts st),
                       effects := effects st @ [Set_swiped productId]\<rparr>;
              row = \<lparr>user_id = uid, product_id = productId, action = Swiped direction\<rparr>;
              (_, st2) = call (Insert_interaction row) (db_insert_interaction (log_rejected r) row) st1
          in if direction = Right then
               let (existing, st3) =
                     call (Select_cart_item uid productId)
                       (db_select_cart_ids (lookup_rejected r) uid productId) st2;
                   (error, st4) =
                     (if existing = None \<or> existing = Some [] then
                        call (Insert_cart_item uid productId 1)
                          (db_insert_cart_item (write_rejected r)
                             \<lparr>cart_id = new_id r, cart_user_id = uid,
                              cart_product_id = productId, quantity = 1\<rparr>) st3
                      else (None, st3))
               in if error \<noteq> None then toast ''Error adding to cart'' st4
                  else toast ''Added to cart!'' st4
             else
               let (_, st3) =
                     call (Delete_saved_items uid productId)
                       (db_delete_saved_items (remove_rejected r) uid productId) st2;
                   (error, st4) =
                     call (Insert_saved_item uid productId)
                       (db_insert_saved_item (write_rejected r)
                          \<lparr>saved_id = new_id r, saved_user_id = uid,
                           saved_product_id = productId\<rparr>) st3
               in if error \<noteq> None then toast ''Error saving item'' st4
                  else toast ''Saved for later'' st4)"

definition visibleProducts :: "swipe_page \<Rightarrow> product list" where
  "visibleProducts st = filter (\<lambda>p. prod_id p \<notin> swipedProducts st) (products st)"

text \<open>
  The earlier revision of the page (\<open>src/pages/Swipe.tsx\<close>) writes with \<open>upsert\<close> and
  no \<open>onConflict\<close> option. The conflict target of such an upsert is the primary key; the
  payload carries no \<open>id\<close>, the generated one meets no row, and the statement is the
  insert, refused on a duplicate \<open>(user_id, product_id)\<close>.
\<close>

definition db_upsert_cart_item ::
  "bool \<Rightarrow> cart_item \<Rightarrow> database \<Rightarrow> gateway_error option \<times> database" where
  "db_upsert_cart_item rejected row db = db_insert_cart_item rejected row db"

definition db_upsert_saved_item ::
  "bool \<Rightarrow> saved_item \<Rightarrow> database \<Rightarrow> gateway_error option \<times> database" where
  "db_upsert_saved_item rejected row db = db_insert_saved_item rejected row db"

definition handleSwipe_upsert ::
  "swipe_replies \<Rightarrow> uuid \<Rightarrow> direction \<Rightarrow> swipe_page \<Rightarrow> swipe_page" where
  "handleSwipe_upsert r productId direction st =
     (case session st of
        None \<Rightarrow> st
      | Some uid \<Rightarrow>
          let st1 = st\<lparr>swipedProducts := insert productId (swipedProducts st),
                       effects := effects st @ [Set_swiped productId]\<rparr>;
              row = \<lparr>user_id = uid, product_id = productId, action = Swiped direction\<rparr>;
              (_, st2) = call (Insert_interaction row) (db_insert_interaction (log_rejected r) row) st1
          in if direction = Right then
               let (error, st3) =
                     call (Upsert_cart_item uid productId 1)
                       (db_upsert_cart_item (write_rejected r)
                          \<lparr>cart_id = new_id r, cart_user_id = uid,
                           cart_product_id = productId, quantity = 1\<rparr>) st2
               in if error \<noteq> None then toast ''Error adding to cart'' st3
                  else toast ''Added to cart!'' st3
             else
               let (error, st3) =
                     call (Upsert_saved_item uid productId)
                       (db_upsert_saved_item (write_rejected r)
                          \<lparr>saved_id = new_id r, saved_user_id = uid,
                           saved_product_id = productId\<rparr>) st2
               in if error \<noteq> None then toast ''Error saving item'' st3
                  else toast ''Saved for later'' st3)"

text \<open>
  Strings: \<open>toLowerCase\<close> and \<open>trim\<close> on the ASCII range (a \<open>char\<close> is a byte; the
  letters and white space beyond ASCII that JavaScript also treats are left as they are).
\<close>

definition toLowerCase_char :: "char \<Rightarrow> char" where
  "toLowerCase_char c =
     (let n = (of_char c :: nat) in if 65 \<le> n \<and> n \<le> 90 then char_of (n + 32) else c)"

definition toLowerCase :: "string \<Rightarrow> string" where
  "toLowerCase s = map toLowerCase_char s"

definition isWhiteSpace :: "char \<Rightarrow> bool" where
  "isWhiteSpace c = (let n = (of_char c :: nat) in (9 \<le> n \<and> n \<le> 13) \<or> n = 32)"

definition trim :: "string \<Rightarrow> string" where
  "trim s = rev (dropWhile isWhiteSpace (rev (dropWhile isWhiteSpace s)))"

text \<open>\<open>p.name || ""\<close>\<close>

definition name_or_empty :: "product \<Rightarrow> string" where
  "name_or_empty p = (case name p of None \<Rightarrow> [] | Some n \<Rightarrow> n)"

definition removedNames :: "string list" where
  "removedNames = map toLowerCase
     [''yes'', ''hr'', ''slim jean'', ''ripped jeans'', ''knit sweater'', ''trechn coart'',
      ''classic white shirt'', ''wireless headphones'']"

text \<open>
  The second \<open>filter\<close> of both \<open>fetchProducts\<close>, with its \<open>seen\<close> set: the key is
  \<open>(p.name || "").trim().toLowerCase()\<close>, and a product whose key was seen is dropped.
\<close>

fun dedupe :: "string set \<Rightarrow> product list \<Rightarrow> product list" where
  "dedupe seen [] = []"
| "dedupe seen (p # ps) =
     (let key = toLowerCase (trim (name_or_empty p))
      in if key \<in> seen then dedupe seen ps else p # dedupe (insert key seen) ps)"

definition fetchProducts :: "gateway_error + product list \<Rightarrow> swipe_page \<Rightarrow> swipe_page" where
  "fetchProducts reply st =
     (let st1 = emit (Request Select_products) st
      in case reply of
           Inl error \<Rightarrow> toast ''Error loading products'' st1
         | Inr data \<Rightarrow>
             let filtered = filter (\<lambda>p. let name = toLowerCase (trim (name_or_empty p))
                                        in name \<notin> set removedNames) data;
                 deduped = dedupe {} filtered
             in st1\<lparr>products := deduped\<rparr>)"

definition preventDefault :: "'a page_scheme \<Rightarrow> 'a page_scheme" where
  "preventDefault st = emit Prevent_default st"

text \<open>
  \<open>handleKeyPress\<close>: the branch of the vertical arrows scrolls the page to a neighbouring
  card, chosen from the layout of the document; it is kept as one effect.
\<close>

definition handleKeyPress :: "swipe_replies \<Rightarrow> string \<Rightarrow> swipe_page \<Rightarrow> swipe_page" where
  "handleKeyPress r key st =
     (let visible = filter (\<lambda>p. prod_id p \<notin> swipedProducts st) (products st)
      in case visible of
           [] \<Rightarrow> st
         | firstProduct # _ \<Rightarrow>
             if key = ''ArrowLeft'' then
               handleSwipe r (prod_id firstProduct) Left (preventDefault st)
             else if key = ''ArrowRight'' then
               handleSwipe r (prod_id firstProduct) Right (preventDefault st)
             else if key = ''ArrowDown'' \<or> key = ''ArrowUp'' then
               emit (Scroll_snap key) (preventDefault st)
             else st)"

text \<open>The listener of \<open>onAuthStateChange\<close> (the role it also fetches is only displayed).\<close>

definition authStateChange :: "uuid option \<Rightarrow> swipe_page \<Rightarrow> swipe_page" where
  "authStateChange s st =
     (let st1 = st\<lparr>session := s\<rparr> in if s = None then navigate ''/auth'' st1 else st1)"

text \<open>
  What can happen to the page. While it is mounted: a card that is shown is released
  after a drag, a key is pressed, the effect on the session fetches the products, the
  session changes, a button of the navigation bar (cart, saved items, seller, sign-out)
  leaves the page. Leaving unmounts the component: its listeners are removed and its
  state is dropped, so nothing happens to it until it is mounted again. A mounted
  component starts from its \<open>useState\<close> values: no session until the session provider
  answers, no products, an empty swiped set. The store and the effects issued so far
  stay. The flag beside the page says whether it is mounted.
\<close>

datatype swipe_event =
    Drag_end swipe_replies uuid real
  | Key_press swipe_replies string
  | Products_fetched "gateway_error + product list"
  | Auth_changed "uuid option"
  | Navigated string
  | Page_mounted

definition mount :: "swipe_page \<Rightarrow> swipe_page" where
  "mount st = st\<lparr>session := None, products := [], swipedProducts := {}\<rparr>"

fun step :: "bool \<times> swipe_page \<Rightarrow> swipe_event \<Rightarrow> bool \<times> swipe_page" where
  "step (mounted, st) (Drag_end r ident offset_x) =
     (if mounted \<and> session st \<noteq> None \<and> ident \<in> prod_id ` set (visibleProducts st)
      then (True, handleDragEnd (handleSwipe r) ident offset_x st) else (mounted, st))"
| "step (mounted, st) (Key_press r key) =
     (if mounted then (True, handleKeyPress r key st) else (mounted, st))"
| "step (mounted, st) (Products_fetched reply) =
     (if mounted \<and> session st \<noteq> None then (True, fetchProducts reply st) else (mounted, st))"
| "step (mounted, st) (Auth_changed s) =
     (if mounted then (s \<noteq> None, authStateChange s st) else (mounted, st))"
| "step (mounted, st) (Navigated route) =
     (if mounted then (False, navigate route st) else (mounted, st))"
| "step (mounted, st) Page_mounted =
     (if mounted then (mounted, st) else (True, mount st))"

text \<open>A run of events on a mounted page.\<close>

definition run :: "swipe_event list \<Rightarrow> swipe_page \<Rightarrow> swipe_page" where
  "run evs st = snd (foldl step (True, st) evs)"

subsection \<open>Seller page\<close>

text \<open>
  JavaScript numbers are IEEE-754 doubles. Their values are rationals; the rounding
  operations on them are a parameter of the model.
\<close>

record number_ops =
  num_add :: "rat \<Rightarrow> rat \<Rightarrow> rat"
  num_mul :: "rat \<Rightarrow> rat \<Rightarrow> rat"
  num_div :: "rat \<Rightarrow> rat \<Rightarrow> rat"

record analytics =
  totalViews :: nat
  totalSwipesRight :: nat
  totalSwipesLeft :: nat
  totalPurchases :: "nat option"
  totalRevenue :: "rat option"

text \<open>A row of \<open>select("action, products!inner(id, price, seller_id)")\<close>.\<close>

record swipe_row =
  row_action :: action
  row_price :: rat

record seller_page = page +
  seller_products :: "product list"
  seller_analytics :: analytics

definition Seller_fetchProducts :: "product list option \<Rightarrow> seller_page \<Rightarrow> seller_page" where
  "Seller_fetchProducts data st =
     (let st1 = emit (Request Select_products) st;
          rows = (case data of None \<Rightarrow> [] | Some ps \<Rightarrow> ps);
          filtered = filter (\<lambda>p. let name = (case name p of None \<Rightarrow> [] | Some n \<Rightarrow> toLowerCase n)
                                    in name \<notin> set removedNames) rows;
          deduped = dedupe {} filtered
      in st1\<lparr>seller_products := deduped\<rparr>)"

definition fetchAnalytics :: "number_ops \<Rightarrow> swipe_row list option \<Rightarrow> seller_page \<Rightarrow> seller_page" where
  "fetchAnalytics ops data st =
     (case data of
        None \<Rightarrow> st
      | Some rows \<Rightarrow>
          let purchases = filter (\<lambda>s. row_action s = Purchased) rows;
              revenue = foldl (\<lambda>sum s. num_add ops sum (row_price s)) 0 purchases;
              a = \<lparr>totalViews = length rows,
                   totalSwipesRight = length (filter (\<lambda>s. row_action s = Swiped Right) rows),
                   totalSwipesLeft = length (filter (\<lambda>s. row_action s = Swiped Left) rows),
                   totalPurchases = Some (length purchases),
                   totalRevenue = Some revenue\<rparr>
          in st\<lparr>seller_analytics := a\<rparr>)"

text \<open>
  \<open>Number.prototype.toFixed(1)\<close> for a finite number below \<open>10^21\<close>: the integer \<open>n\<close> with
  \<open>n / 10\<close> nearest to the value, the larger one of two, written with one digit after the
  point; a negative value is written as its negation after a minus sign.
\<close>

fun decimal :: "nat \<Rightarrow> string" where
  "decimal n = (if n < 10 then [char_of (48 + n)] else decimal (n div 10) @ [char_of (48 + n mod 10)])"

declare decimal.simps [simp del]

definition tenths :: "rat \<Rightarrow> nat" where
  "tenths x = nat \<lfloor>\<bar>x\<bar> * 10 + 1 / 2\<rfloor>"

definition toFixed1 :: "rat \<Rightarrow> string" where
  "toFixed1 x =
     (let n = tenths x
      in (if x < 0 then ''-'' else []) @ decimal (n div 10) @ ''.'' @ decimal (n mod 10))"

definition conversionRate :: "number_ops \<Rightarrow> analytics \<Rightarrow> string" where
  "conversionRate ops a =
     (if totalViews a > 0
      then toFixed1 (num_mul ops (num_div ops (of_nat (totalSwipesRight a)) (of_nat (totalViews a))) 100)
      else ''0'')"

subsection \<open>Cart page\<close>

record cart_line =
  line_id :: uuid
  line_quantity :: int
  line_products :: product

record cart_page = page +
  cartItems :: "cart_line list"

record checkout_replies =
  purchase_rejected :: "nat \<Rightarrow> bool"
  clear_rejected :: bool

text \<open>\<open>delete().eq("user_id", u)\<close> on \<open>cart_items\<close>.\<close>

definition db_delete_cart_items ::
  "bool \<Rightarrow> uuid \<Rightarrow> database \<Rightarrow> gateway_error option \<times> database" where
  "db_delete_cart_items rejected u db =
     (if rejected then (Some Rejected, db)
      else (None, db\<lparr>cart_items := filter (\<lambda>c. cart_user_id c \<noteq> u) (cart_items db)\<rparr>))"

text \<open>The \<open>for\<close> loop of \<open>checkout\<close>; \<open>k\<close> counts the lines done, for the replies.\<close>

fun record_purchases ::
  "(nat \<Rightarrow> bool) \<Rightarrow> uuid \<Rightarrow> nat \<Rightarrow> cart_line list \<Rightarrow> 'a page_scheme \<Rightarrow> 'a page_scheme" where
  "record_purchases rejected uid k [] st = st"
| "record_purchases rejected uid k (item # items) st =
     (let row = \<lparr>user_id = uid, product_id = prod_id (line_products item), action = Purchased\<rparr>;
          (error, st1) = call (Insert_interaction row) (db_insert_interaction (rejected k) row) st;
          st2 = (if error \<noteq> None then console_warn ''purchase insert failed'' st1 else st1)
      in record_purchases rejected uid (Suc k) items st2)"

text \<open>
  The gateway client returns its errors as values, so the \<open>catch\<close> block of \<open>checkout\<close>
  has no branch here.
\<close>

definition checkout :: "checkout_replies \<Rightarrow> cart_page \<Rightarrow> cart_page" where
  "checkout r st =
     (case session st of
        None \<Rightarrow> st
      | Some uid \<Rightarrow>
          if length (cartItems st) = 0 then st
          else
            let st1 = record_purchases (purchase_rejected r) uid 0 (cartItems st) st;
                (clearError, st2) =
                  call (Delete_cart_items uid) (db_delete_cart_items (clear_rejected r) uid) st1;
                st3 = (if clearError \<noteq> None then console_warn ''clear cart failed'' st2 else st2);
                st4 = toast ''Checkout complete!'' st3;
                st5 = st4\<lparr>cartItems := []\<rparr>
            in navigate ''/swipe'' st5)"

subsection \<open>Saved items page\<close>

record saved_view =
  view_id :: uuid
  view_product :: product

record saved_page = page +
  savedItems :: "saved_view list"

record saved_replies =
  upsert_rejected :: bool
  upsert_id :: uuid
  delete_rejected :: bool
  list_reply :: "gateway_error + saved_item list"
  products_reply :: "product list option"

text \<open>
  \<open>delete().eq("id", i)\<close> on \<open>saved_items\<close>: the policy of the table lets a user delete
  the rows of that user only, the others are not seen by the statement.
\<close>

definition db_delete_saved_item_by_id ::
  "bool \<Rightarrow> uuid option \<Rightarrow> uuid \<Rightarrow> database \<Rightarrow> gateway_error option \<times> database" where
  "db_delete_saved_item_by_id rejected auth i db =
     (if rejected then (Some Rejected, db)
      else (None, db\<lparr>saved_items :=
              filter (\<lambda>s. \<not> (saved_id s = i \<and> Some (saved_user_id s) = auth)) (saved_items db)\<rparr>))"

definition fetchSavedItems :: "saved_replies \<Rightarrow> saved_page \<Rightarrow> saved_page" where
  "fetchSavedItems r st =
     (let st1 = emit (Request Select_saved_items) st
      in case list_reply r of
           Inl error \<Rightarrow> toast ''Error loading saved items'' st1
         | Inr data \<Rightarrow>
             if length data > 0 then
               let productIds = map saved_product_id data;
                   st2 = emit (Request (Select_products_in productIds)) st1;
                   found = (\<lambda>i. case products_reply r of
                                   None \<Rightarrow> None
                                 | Some ps \<Rightarrow> find (\<lambda>p. prod_id p = i) ps);
                   itemsWithProducts =
                     map (\<lambda>item. \<lparr>view_id = saved_id item,
                                   view_product =
                                     (case found (saved_product_id item) of
                                        Some p \<Rightarrow> p
                                      | None \<Rightarrow> \<lparr>prod_id = saved_product_id item, name = Some ''Unknown'',
                                                   description = Some [], price = 0,
                                                   image_url = Some []\<rparr>)\<rparr>) data
               in st2\<lparr>savedItems := itemsWithProducts\<rparr>
             else st1\<lparr>savedItems := []\<rparr>)"

text \<open>
  \<open>handleRemove\<close> starts \<open>fetchSavedItems\<close> without awaiting it; the model runs the fetch
  to its end on the spot, so the effects of the fetch stand before a notification that
  an awaiting caller shows, where in the browser the reply to the fetch is handled after
  it. The fetch changes the list of the page only, not the store.
\<close>

definition handleRemove :: "saved_replies \<Rightarrow> uuid \<Rightarrow> saved_page \<Rightarrow> saved_page" where
  "handleRemove r savedItemId st =
     (let (error, st1) =
            call (Delete_saved_item_by_id savedItemId)
              (db_delete_saved_item_by_id (delete_rejected r) (session st) savedItemId) st
      in if error \<noteq> None then toast ''Error removing item'' st1
         else fetchSavedItems r (toast ''Item removed'' st1))"

definition handleMoveToCart :: "saved_replies \<Rightarrow> uuid \<Rightarrow> uuid \<Rightarrow> saved_page \<Rightarrow> saved_page" where
  "handleMoveToCart r productId savedItemId st =
     (case session st of
        None \<Rightarrow> st
      | Some uid \<Rightarrow>
          let (error, st1) =
                call (Upsert_cart_item uid productId 1)
                  (db_upsert_cart_item (upsert_rejected r)
                     \<lparr>cart_id = upsert_id r, cart_user_id = uid,
                      cart_product_id = productId, quantity = 1\<rparr>) st
          in if error \<noteq> None then toast ''Error adding to cart'' st1
             else toast ''Moved to cart!'' (handleRemove r savedItemId st1))"

section \<open>Instruments of the statements\<close>

text \<open>A callback that records its invocations, to count the calls a card makes.\<close>

definition record_call ::
  "uuid \<Rightarrow> direction \<Rightarrow> (uuid \<times> direction) list \<Rightarrow> (uuid \<times> direction) list" where
  "record_call ident direction calls = calls @ [(ident, direction)]"

definition cart_rows_for :: "uuid \<Rightarrow> uuid \<Rightarrow> database \<Rightarrow> cart_item list" where
  "cart_rows_for u p db =
     filter (\<lambda>c. cart_user_id c = u \<and> cart_product_id c = p) (cart_items db)"

definition saved_rows_for :: "uuid \<Rightarrow> uuid \<Rightarrow> database \<Rightarrow> saved_item list" where
  "saved_rows_for u p db =
     filter (\<lambda>s. saved_user_id s = u \<and> saved_product_id s = p) (saved_items db)"

text \<open>A small store, a page on it and two sets of replies, for the concrete instances.\<close>

definition demo_products :: "product list" where
  "demo_products =
     [\<lparr>prod_id = ''p1'', name = Some ''Desk Lamp'', description = None, price = 30,
       image_url = None\<rparr>,
      \<lparr>prod_id = ''p2'', name = Some ''Tea Pot'', description = None, price = 12,
       image_url = None\<rparr>]"

definition demo_store :: database where
  "demo_store =
     \<lparr>cart_items =
        [\<lparr>cart_id = ''c1'', cart_user_id = ''u1'', cart_product_id = ''p2'', quantity = 3\<rparr>],
      saved_items = [\<lparr>saved_id = ''s1'', saved_user_id = ''u1'', saved_product_id = ''p1''\<rparr>],
      swipe_interactions = []\<rparr>"

definition demo_swipe_page :: swipe_page where
  "demo_swipe_page =
     \<lparr>store = demo_store, effects = [], session = Some ''u1'',
      products = demo_products, swipedProducts = {}\<rparr>"

definition accepting :: swipe_replies where
  "accepting = \<lparr>log_rejected = False, lookup_rejected = False, remove_rejected = False,
                 write_rejected = False, new_id = ''n1''\<rparr>"

definition rejecting :: swipe_replies where
  "rejecting = \<lparr>log_rejected = True, lookup_rejected = True, remove_rejected = True,
                 write_rejected = True, new_id = ''n1''\<rparr>"

text \<open>The gateway requests among the effects, in the order they were issued.\<close>

definition requests_of :: "effect list \<Rightarrow> request list" where
  "requests_of es = concat (map (\<lambda>e. case e of Request q \<Rightarrow> [q] | _ \<Rightarrow> []) es)"

definition purchase_row :: "uuid \<Rightarrow> cart_line \<Rightarrow> interaction" where
  "purchase_row uid item =
     \<lparr>user_id = uid, product_id = prod_id (line_products item), action = Purchased\<rparr>"

definition demo_cart_page :: cart_page where
  "demo_cart_page =
     \<lparr>store =
        \<lparr>cart_items =
           [\<lparr>cart_id = ''c1'', cart_user_id = ''u1'', cart_product_id = ''p1'', quantity = 1\<rparr>,
            \<lparr>cart_id = ''c2'', cart_user_id = ''u2'', cart_product_id = ''p1'', quantity = 1\<rparr>,
            \<lparr>cart_id = ''c3'', cart_user_id = ''u1'', cart_product_id = ''p2'', quantity = 1\<rparr>],
         saved_items = [], swipe_interactions = []\<rparr>,
      effects = [], session = Some ''u1'',
      cartItems =
        [\<lparr>line_id = ''c1'', line_quantity = 1, line_products = demo_products ! 0\<rparr>,
         \<lparr>line_id = ''c3'', line_quantity = 1, line_products = demo_products ! 1\<rparr>]\<rparr>"

definition demo_saved_page :: saved_page where
  "demo_saved_page =
     \<lparr>store = demo_store, effects = [], session = Some ''u1'',
      savedItems = [\<lparr>view_id = ''s1'', view_product = demo_products ! 0\<rparr>]\<rparr>"

definition demo_saved_replies :: saved_replies where
  "demo_saved_replies =
     \<lparr>upsert_rejected = False, upsert_id = ''n1'', delete_rejected = False,
      list_reply = Inr [], products_reply = Some []\<rparr>"

text \<open>
  The accuracy of the number operations: a result that is zero or in the range of the
  normal doubles is the exact one rounded to nearest, so within the relative error
  \<open>2^-53\<close> of it. (Sums are not used by the statements below.)
\<close>

definition double_range :: "rat \<Rightarrow> bool" where
  "double_range x = (x = 0 \<or> (1 / 2 ^ 1022 \<le> \<bar>x\<bar> \<and> \<bar>x\<bar> \<le> 2 ^ 1023))"

definition rounds_to_nearest :: "number_ops \<Rightarrow> bool" where
  "rounds_to_nearest ops =
     (\<forall>x y. (double_range (x * y) \<longrightarrow>
               \<bar>num_mul ops x y - x * y\<bar> \<le> \<bar>x * y\<bar> / 2 ^ 53)
          \<and> (y \<noteq> 0 \<and> double_range (x / y) \<longrightarrow>
               \<bar>num_div ops x y - x / y\<bar> \<le> \<bar>x / y\<bar> / 2 ^ 53))"

definition exact_ops :: number_ops where
  "exact_ops = \<lparr>num_add = (+), num_mul = (*), num_div = (/)\<rparr>"

definition demo_seller_page :: seller_page where
  "demo_seller_page =
     \<lparr>store = demo_store, effects = [], session = Some ''u1'', seller_products = [],
      seller_analytics =
        \<lparr>totalViews = 0, totalSwipesRight = 0, totalSwipesLeft = 0, totalPurchases = None,
         totalRevenue = None\<rparr>\<rparr>"

definition demo_rows :: "swipe_row list" where
  "demo_rows =
     [\<lparr>row_action = Swiped Right, row_price = 30\<rparr>, \<lparr>row_action = Swiped Right, row_price = 12\<rparr>,
      \<lparr>row_action = Swiped Left, row_price = 30\<rparr>, \<lparr>row_action = Swiped Right, row_price = 30\<rparr>]"

text \<open>A listing whose name is a denied one followed by a space, as a seller can type it.\<close>

definition padded_product :: product where
  "padded_product =
     \<lparr>prod_id = ''p9'', name = Some ''Ripped Jeans '', description = None, price = 40,
      image_url = None\<rparr>"

section \<open>What a swipe does to the page\<close>

lemmas page_defs = call_def toast_def emit_def Let_def split_def

lemma select_keeps: "snd (db_select_cart_ids rejected u p db) = db"
  by (simp add: db_select_cart_ids_def)

text \<open>The two branches of \<open>handleSwipe\<close> for a signed-in user, as one update of the page.\<close>

lemma handleSwipe_Left_eq:
  assumes "session st = Some uid"
  shows "handleSwipe r pid Left st =
     (let row = \<lparr>user_id = uid, product_id = pid, action = Swiped Left\<rparr>;
          db1 = snd (db_insert_interaction (log_rejected r) row (store st));
          db2 = snd (db_delete_saved_items (remove_rejected r) uid pid db1);
          ins = db_insert_saved_item (write_rejected r)
                  \<lparr>saved_id = new_id r, saved_user_id = uid, saved_product_id = pid\<rparr> db2
      in st\<lparr>store := snd ins,
            effects := effects st @
              [Set_swiped pid, Request (Insert_interaction row),
               Request (Delete_saved_items uid pid), Request (Insert_saved_item uid pid),
               Toast (if fst ins \<noteq> None then ''Error saving item'' else ''Saved for later'')],
            swipedProducts := insert pid (swipedProducts st)\<rparr>)"
  using assms by (simp add: handleSwipe_def page_defs)

lemma handleSwipe_Right_eq:
  assumes "session st = Some uid"
  shows "handleSwipe r pid Right st =
     (let row = \<lparr>user_id = uid, product_id = pid, action = Swiped Right\<rparr>;
          db1 = snd (db_insert_interaction (log_rejected r) row (store st));
          existing = fst (db_select_cart_ids (lookup_rejected r) uid pid db1);
          ins = db_insert_cart_item (write_rejected r)
                  \<lparr>cart_id = new_id r, cart_user_id = uid, cart_product_id = pid,
                   quantity = 1\<rparr> db1
      in if existing = None \<or> existing = Some [] then
           st\<lparr>store := snd ins,
              effects := effects st @
                [Set_swiped pid, Request (Insert_interaction row),
                 Request (Select_cart_item uid pid), Request (Insert_cart_item uid pid 1),
                 Toast (if fst ins \<noteq> None then ''Error adding to cart''
                        else ''Added to cart!'')],
              swipedProducts := insert pid (swipedProducts st)\<rparr>
         else
           st\<lparr>store := db1,
              effects := effects st @
                [Set_swiped pid, Request (Insert_interaction row),
                 Request (Select_cart_item uid pid), Toast ''Added to cart!''],
              swipedProducts := insert pid (swipedProducts st)\<rparr>)"
  using assms by (simp add: handleSwipe_def page_defs select_keeps)

lemma handleSwipe_signed_out: "session st = None \<Longrightarrow> handleSwipe r pid d st = st"
  by (simp add: handleSwipe_def)

lemma handleSwipe_session: "session (handleSwipe r pid d st) = session st"
proof (cases "session st")
  case None
  then show ?thesis by (simp add: handleSwipe_signed_out)
next
  case (Some uid)
  then show ?thesis
    by (cases d) (simp_all add: handleSwipe_Left_eq handleSwipe_Right_eq Let_def)
qed

lemma handleSwipe_products: "products (handleSwipe r pid d st) = products st"
proof (cases "session st")
  case None
  then show ?thesis by (simp add: handleSwipe_signed_out)
next
  case (Some uid)
  then show ?thesis
    by (cases d) (simp_all add: handleSwipe_Left_eq handleSwipe_Right_eq Let_def)
qed

lemma handleSwipe_swiped:
  "swipedProducts (handleSwipe r pid d st) =
     (if session st = None then swipedProducts st else insert pid (swipedProducts st))"
proof (cases "session st")
  case None
  then show ?thesis by (simp add: handleSwipe_signed_out)
next
  case (Some uid)
  then show ?thesis
    by (cases d) (simp_all add: handleSwipe_Left_eq handleSwipe_Right_eq Let_def)
qed

lemma handleSwipe_interactions:
  assumes "session st = Some uid"
  shows "swipe_interactions (store (handleSwipe r pid d st)) =
     (if log_rejected r then swipe_interactions (store st)
      else swipe_interactions (store st) @
             [\<lparr>user_id = uid, product_id = pid, action = Swiped d\<rparr>])"
  using assms
  by (cases d)
    (simp_all add: handleSwipe_Left_eq handleSwipe_Right_eq Let_def db_insert_interaction_def
      db_insert_cart_item_def db_insert_saved_item_def db_delete_saved_items_def)

section \<open>The card commits a decision past the threshold\<close>

lemma handleSwipe_first_effects:
  assumes "session st = Some uid"
  shows "\<exists>rest. effects (handleSwipe r pid d st) =
     effects st @
       [Set_swiped pid,
        Request (Insert_interaction \<lparr>user_id = uid, product_id = pid, action = Swiped d\<rparr>)]
       @ rest
     \<and> Request (Insert_interaction \<lparr>user_id = uid, product_id = pid, action = Swiped d\<rparr>)
         \<notin> set rest
     \<and> Set_swiped pid \<notin> set rest
     \<and> Request (if d = Right then Select_cart_item uid pid else Insert_saved_item uid pid)
         \<in> set rest"
  using assms
  by (cases d) (simp_all add: handleSwipe_Left_eq handleSwipe_Right_eq Let_def)

text \<open>
  Claim C1. On the release of a drag with horizontal displacement \<open>d\<close> the card invokes
  its swipe callback if and only if \<open>|d| > 100\<close>, once, with the direction right when
  \<open>d > 0\<close> and left otherwise; when \<open>|d| \<le> 100\<close> no callback is invoked. On the swipe
  page, whose callback is \<open>handleSwipe\<close>, a release with \<open>|d| \<le> 100\<close> leaves the page,
  its store and its visible cards as they are, and a release past the threshold is the
  decision of that direction: for a signed-in user it requests the insert of one
  interaction record with the direction as action.
\<close>

theorem drag_release_commits_iff_past_threshold:
  "(handleDragEnd record_call pid d [] \<noteq> []) = (\<bar>d\<bar> > 100)
   \<and> (\<bar>d\<bar> > 100 \<longrightarrow>
        handleDragEnd record_call pid d [] = [(pid, if d > 0 then Right else Left)])
   \<and> (\<bar>d\<bar> \<le> 100 \<longrightarrow> handleDragEnd record_call pid d [] = [])
   \<and> (\<bar>d\<bar> \<le> 100 \<longrightarrow> handleDragEnd (handleSwipe r) pid d st = st)
   \<and> (\<bar>d\<bar> > 100 \<longrightarrow>
        handleDragEnd (handleSwipe r) pid d st =
          handleSwipe r pid (if d > 0 then Right else Left) st)
   \<and> (\<bar>d\<bar> > 100 \<and> session st = Some uid \<longrightarrow>
        (\<exists>rest. effects (handleDragEnd (handleSwipe r) pid d st) =
           effects st @
             [Set_swiped pid,
              Request (Insert_interaction
                \<lparr>user_id = uid, product_id = pid,
                 action = Swiped (if d > 0 then Right else Left)\<rparr>)] @ rest
           \<and> Request (Insert_interaction
                \<lparr>user_id = uid, product_id = pid,
                 action = Swiped (if d > 0 then Right else Left)\<rparr>) \<notin> set rest))"
proof -
  have calls: "handleDragEnd record_call pid d [] =
      (if \<bar>d\<bar> > 100 then [(pid, if d > 0 then Right else Left)] else [])"
    by (simp add: handleDragEnd_def record_call_def Let_def)
  have page: "handleDragEnd (handleSwipe r) pid d st =
      (if \<bar>d\<bar> > 100 then handleSwipe r pid (if d > 0 then Right else Left) st else st)"
    by (simp add: handleDragEnd_def Let_def)
  have logged: "\<exists>rest. effects (handleDragEnd (handleSwipe r) pid d st) =
      effects st @
        [Set_swiped pid,
         Request (Insert_interaction
           \<lparr>user_id = uid, product_id = pid,
            action = Swiped (if d > 0 then Right else Left)\<rparr>)] @ rest
      \<and> Request (Insert_interaction
           \<lparr>user_id = uid, product_id = pid,
            action = Swiped (if d > 0 then Right else Left)\<rparr>) \<notin> set rest"
    if "\<bar>d\<bar> > 100" "session st = Some uid"
    using handleSwipe_first_effects [OF that(2), of r pid "if d > 0 then Right else Left"] that(1)
    unfolding page by auto
  show ?thesis
    using logged by (simp add: calls page)
qed

theorem drag_release_commits_iff_past_threshold_witness:
  "handleDragEnd record_call ''p1'' 150 [] = [(''p1'', Right)]
   \<and> handleDragEnd record_call ''p1'' (-101) [] = [(''p1'', Left)]
   \<and> handleDragEnd record_call ''p1'' 100 [] = []
   \<and> handleDragEnd (handleSwipe accepting) ''p1'' (-100) demo_swipe_page = demo_swipe_page
   \<and> session demo_swipe_page = Some ''u1''
   \<and> (\<exists>rest. effects (handleDragEnd (handleSwipe accepting) ''p1'' (-101) demo_swipe_page) =
         effects demo_swipe_page @
           [Set_swiped ''p1'',
            Request (Insert_interaction
              \<lparr>user_id = ''u1'', product_id = ''p1'', action = Swiped Left\<rparr>)] @ rest)"
proof -
  have s: "session demo_swipe_page = Some ''u1''"
    by (simp add: demo_swipe_page_def)
  show ?thesis
    using s drag_release_commits_iff_past_threshold [of "''p1''" 150]
      drag_release_commits_iff_past_threshold [of "''p1''" "-101" accepting demo_swipe_page "''u1''"]
      drag_release_commits_iff_past_threshold [of "''p1''" 100]
      drag_release_commits_iff_past_threshold [of "''p1''" "-100" accepting demo_swipe_page]
    by auto
qed

text \<open>The earlier revision of the card decides in the same way.\<close>

lemma handleDragEnd_unkeyed_eq:
  "handleDragEnd_unkeyed onSwipe d s = handleDragEnd (\<lambda>_. onSwipe) pid d s"
  by (simp add: handleDragEnd_unkeyed_def handleDragEnd_def)

section \<open>A right swipe adds the product to the cart once\<close>

lemma right_swipe_cart:
  assumes "session st = Some uid"
  shows "cart_items (store (handleSwipe r pid Right st)) =
     (if cart_rows_for uid pid (store st) = [] \<and> \<not> write_rejected r
         \<and> new_id r \<notin> cart_id ` set (cart_items (store st))
      then cart_items (store st) @
             [\<lparr>cart_id = new_id r, cart_user_id = uid, cart_product_id = pid, quantity = 1\<rparr>]
      else cart_items (store st))"
  using assms
  by (auto simp: handleSwipe_Right_eq Let_def db_insert_interaction_def db_select_cart_ids_def
      db_insert_cart_item_def cart_rows_for_def cart_conflict_def list_ex_iff filter_empty_conv
      image_iff Bex_def)

text \<open>
  Claim C2, as the code has it. For a signed-in user, a right swipe on a product that
  already has a cart row for the pair leaves \<open>cart_items\<close> as it is, whatever the gateway
  replies: no second row, the quantity untouched. When the pair has no row, the insert
  the handler issues, provided the gateway accepts it, adds exactly one row with
  quantity 1, and a repeated right swipe after it changes nothing.
\<close>

theorem right_swipe_idempotent:
  assumes "session st = Some uid"
  shows "(cart_rows_for uid pid (store st) \<noteq> [] \<longrightarrow>
            cart_items (store (handleSwipe r pid Right st)) = cart_items (store st))
    \<and> (cart_rows_for uid pid (store st) = [] \<and> \<not> write_rejected r
         \<and> new_id r \<notin> cart_id ` set (cart_items (store st)) \<longrightarrow>
         cart_items (store (handleSwipe r pid Right st)) =
           cart_items (store st) @
             [\<lparr>cart_id = new_id r, cart_user_id = uid, cart_product_id = pid, quantity = 1\<rparr>]
         \<and> cart_items (store (handleSwipe r' pid Right (handleSwipe r pid Right st))) =
           cart_items (store st) @
             [\<lparr>cart_id = new_id r, cart_user_id = uid, cart_product_id = pid, quantity = 1\<rparr>])"
proof -
  let ?st1 = "handleSwipe r pid Right st"
  have s1: "session ?st1 = Some uid"
    using assms by (simp add: handleSwipe_session)
  have again: "cart_items (store (handleSwipe r' pid Right ?st1)) = cart_items (store ?st1)"
    if "cart_rows_for uid pid (store st) = []" "\<not> write_rejected r"
      "new_id r \<notin> cart_id ` set (cart_items (store st))"
  proof -
    have "cart_rows_for uid pid (store ?st1) \<noteq> []"
      using that by (simp add: right_swipe_cart [OF assms] cart_rows_for_def)
    then show ?thesis
      by (simp add: right_swipe_cart [OF s1])
  qed
  show ?thesis
    using again by (simp add: right_swipe_cart [OF assms])
qed

theorem right_swipe_idempotent_witness:
  "session demo_swipe_page = Some ''u1''
   \<and> cart_rows_for ''u1'' ''p2'' (store demo_swipe_page) \<noteq> []
   \<and> cart_items (store (handleSwipe accepting ''p2'' Right demo_swipe_page)) =
       cart_items demo_store
   \<and> cart_rows_for ''u1'' ''p1'' (store demo_swipe_page) = []
   \<and> cart_items (store (handleSwipe rejecting ''p1'' Right
        (handleSwipe accepting ''p1'' Right demo_swipe_page))) =
       cart_items demo_store @
         [\<lparr>cart_id = ''n1'', cart_user_id = ''u1'', cart_product_id = ''p1'', quantity = 1\<rparr>]"
proof -
  have s: "session demo_swipe_page = Some ''u1''"
    by (simp add: demo_swipe_page_def)
  show ?thesis
    using s right_swipe_idempotent [OF s, of "''p2''" accepting]
      right_swipe_idempotent [OF s, of "''p1''" accepting rejecting]
    by (simp add: demo_swipe_page_def demo_store_def cart_rows_for_def accepting_def)
qed

text \<open>
  The claim as it is written, one row with quantity 1 inserted when the pair has none,
  fails when the gateway rejects the insert: the handler shows the error, and the pair,
  without a cart row before the right swipe, is without one after it.
\<close>

theorem right_swipe_rejected_insert_counterexample:
  "cart_rows_for ''u1'' ''p1'' (store demo_swipe_page) = []
   \<and> cart_rows_for ''u1'' ''p1''
       (store (handleSwipe (accepting\<lparr>write_rejected := True\<rparr>) ''p1'' Right demo_swipe_page)) = []
   \<and> cart_items
       (store (handleSwipe (accepting\<lparr>write_rejected := True\<rparr>) ''p1'' Right demo_swipe_page)) =
       cart_items (store demo_swipe_page)
   \<and> requests_of (effects (handleSwipe (accepting\<lparr>write_rejected := True\<rparr>) ''p1'' Right
       demo_swipe_page)) =
       [Insert_interaction \<lparr>user_id = ''u1'', product_id = ''p1'', action = Swiped Right\<rparr>,
        Select_cart_item ''u1'' ''p1'', Insert_cart_item ''u1'' ''p1'' 1]
   \<and> last (effects (handleSwipe (accepting\<lparr>write_rejected := True\<rparr>) ''p1'' Right
       demo_swipe_page)) = Toast ''Error adding to cart''"
proof -
  let ?r = "accepting\<lparr>write_rejected := True\<rparr>"
  have s: "session demo_swipe_page = Some ''u1''"
    by (simp add: demo_swipe_page_def)
  have r: "write_rejected ?r" "\<not> log_rejected ?r" "\<not> lookup_rejected ?r"
    by (simp_all add: accepting_def)
  have before: "cart_rows_for ''u1'' ''p1'' (store demo_swipe_page) = []"
    by (simp add: demo_swipe_page_def demo_store_def cart_rows_for_def)
  have kept: "cart_items (store (handleSwipe ?r ''p1'' Right demo_swipe_page)) =
      cart_items (store demo_swipe_page)"
    using r by (simp add: right_swipe_cart [OF s])
  have after: "cart_rows_for ''u1'' ''p1''
      (store (handleSwipe ?r ''p1'' Right demo_swipe_page)) = []"
    using before kept by (simp add: cart_rows_for_def)
  have existing: "fst (db_select_cart_ids False ''u1'' ''p1''
      (snd (db_insert_interaction False
         \<lparr>user_id = ''u1'', product_id = ''p1'', action = Swiped Right\<rparr>
         (store demo_swipe_page)))) = Some []"
    by (simp add: db_select_cart_ids_def db_insert_interaction_def demo_swipe_page_def
        demo_store_def)
  have e: "effects demo_swipe_page = []"
    by (simp add: demo_swipe_page_def)
  have shown: "effects (handleSwipe ?r ''p1'' Right demo_swipe_page) =
      [Set_swiped ''p1'',
       Request (Insert_interaction
         \<lparr>user_id = ''u1'', product_id = ''p1'', action = Swiped Right\<rparr>),
       Request (Select_cart_item ''u1'' ''p1''), Request (Insert_cart_item ''u1'' ''p1'' 1),
       Toast ''Error adding to cart'']"
    unfolding handleSwipe_Right_eq [OF s]
    using r existing e by (simp add: Let_def db_insert_cart_item_def)
  from before after kept shown show ?thesis
    by (simp add: requests_of_def)
qed

section \<open>A left swipe replaces the saved row\<close>

lemma left_swipe_never_duplicates:
  assumes "session st = Some uid" "length (saved_rows_for uid pid (store st)) \<le> 1"
  shows "length (saved_rows_for uid pid (store (handleSwipe r pid Left st))) \<le> 1"
proof -
  let ?row = "\<lparr>saved_id = new_id r, saved_user_id = uid, saved_product_id = pid\<rparr>"
  have none: "filter (\<lambda>s. saved_user_id s = uid \<and> saved_product_id s = pid) rows = []"
    if "\<not> saved_conflict ?row rows" for rows
    using that by (auto simp: saved_conflict_def list_ex_iff filter_empty_conv)
  show ?thesis
    using assms none [of "saved_items (store st)"]
      none [of "filter (\<lambda>s. \<not> (saved_user_id s = uid \<and> saved_product_id s = pid))
        (saved_items (store st))"]
    by (simp add: handleSwipe_Left_eq Let_def db_insert_interaction_def
        db_delete_saved_items_def db_insert_saved_item_def saved_rows_for_def)
qed

text \<open>
  Claim C3, as the code has it. For a signed-in user, a left swipe requests the delete of
  the saved rows of the pair and then the insert of a fresh one, in this order. Whatever
  the gateway replies, a pair with at most one saved row has at most one afterwards.
  When the gateway accepts the delete and the insert, the saved rows of the pair are
  exactly the fresh row, whatever was there before: so also after a repeated left swipe
  on the pair.
\<close>

theorem left_swipe_replaces_saved_row:
  assumes "session st = Some uid"
  shows "(\<exists>t. effects (handleSwipe r pid Left st) =
            effects st @
              [Set_swiped pid,
               Request (Insert_interaction
                 \<lparr>user_id = uid, product_id = pid, action = Swiped Left\<rparr>),
               Request (Delete_saved_items uid pid), Request (Insert_saved_item uid pid),
               Toast t])
    \<and> (length (saved_rows_for uid pid (store st)) \<le> 1 \<longrightarrow>
          length (saved_rows_for uid pid (store (handleSwipe r pid Left st))) \<le> 1)
    \<and> (\<not> remove_rejected r \<and> \<not> write_rejected r
         \<and> new_id r \<notin> saved_id ` set (saved_items (store st)) \<longrightarrow>
          saved_items (store (handleSwipe r pid Left st)) =
            filter (\<lambda>s. \<not> (saved_user_id s = uid \<and> saved_product_id s = pid))
              (saved_items (store st)) @
            [\<lparr>saved_id = new_id r, saved_user_id = uid, saved_product_id = pid\<rparr>]
          \<and> saved_rows_for uid pid (store (handleSwipe r pid Left st)) =
            [\<lparr>saved_id = new_id r, saved_user_id = uid, saved_product_id = pid\<rparr>]
          \<and> length (saved_rows_for uid pid (store (handleSwipe r pid Left st))) = 1)"
proof -
  let ?row = "\<lparr>saved_id = new_id r, saved_user_id = uid, saved_product_id = pid\<rparr>"
  let ?others = "filter (\<lambda>s. \<not> (saved_user_id s = uid \<and> saved_product_id s = pid))
    (saved_items (store st))"
  have order: "\<exists>t. effects (handleSwipe r pid Left st) =
      effects st @
        [Set_swiped pid,
         Request (Insert_interaction \<lparr>user_id = uid, product_id = pid, action = Swiped Left\<rparr>),
         Request (Delete_saved_items uid pid), Request (Insert_saved_item uid pid), Toast t]"
    using assms by (simp add: handleSwipe_Left_eq Let_def)
  have replaced: "saved_items (store (handleSwipe r pid Left st)) = ?others @ [?row]"
    if "\<not> remove_rejected r" "\<not> write_rejected r"
      "new_id r \<notin> saved_id ` set (saved_items (store st))"
  proof -
    have "\<not> saved_conflict ?row ?others"
      using that(3) by (auto simp: saved_conflict_def list_ex_iff image_iff Bex_def)
    then show ?thesis
      using assms that(1,2)
      by (simp add: handleSwipe_Left_eq Let_def db_insert_interaction_def
          db_delete_saved_items_def db_insert_saved_item_def)
  qed
  have one: "saved_rows_for uid pid (store (handleSwipe r pid Left st)) = [?row]"
    if "\<not> remove_rejected r" "\<not> write_rejected r"
      "new_id r \<notin> saved_id ` set (saved_items (store st))"
    using replaced [OF that] by (simp add: saved_rows_for_def)
  show ?thesis
    using order left_swipe_never_duplicates [OF assms] replaced one by auto
qed

theorem left_swipe_replaces_saved_row_witness:
  "session demo_swipe_page = Some ''u1''
   \<and> saved_rows_for ''u1'' ''p1'' (store demo_swipe_page) =
       [\<lparr>saved_id = ''s1'', saved_user_id = ''u1'', saved_product_id = ''p1''\<rparr>]
   \<and> saved_rows_for ''u1'' ''p1'' (store (handleSwipe accepting ''p1'' Left demo_swipe_page)) =
       [\<lparr>saved_id = ''n1'', saved_user_id = ''u1'', saved_product_id = ''p1''\<rparr>]
   \<and> length (saved_rows_for ''u1'' ''p1''
        (store (handleSwipe accepting ''p1'' Left demo_swipe_page))) = 1
   \<and> length (saved_rows_for ''u1'' ''p1''
        (store (handleSwipe rejecting ''p1'' Left demo_swipe_page))) \<le> 1"
proof -
  have s: "session demo_swipe_page = Some ''u1''"
    by (simp add: demo_swipe_page_def)
  have rows: "saved_rows_for ''u1'' ''p1'' (store demo_swipe_page) =
      [\<lparr>saved_id = ''s1'', saved_user_id = ''u1'', saved_product_id = ''p1''\<rparr>]"
    by (simp add: demo_swipe_page_def demo_store_def saved_rows_for_def)
  have a: "\<not> remove_rejected accepting \<and> \<not> write_rejected accepting
      \<and> new_id accepting \<notin> saved_id ` set (saved_items (store demo_swipe_page))"
    by (simp add: accepting_def demo_swipe_page_def demo_store_def)
  have "new_id accepting = ''n1''"
    by (simp add: accepting_def)
  then show ?thesis
    using s rows a left_swipe_replaces_saved_row [OF s, of accepting "''p1''"]
      left_swipe_replaces_saved_row [OF s, of rejecting "''p1''"]
    by simp
qed

text \<open>
  A rejected insert after an accepted delete leaves the pair with no saved row; when the
  delete is rejected, the rows of the pair stay and the insert is refused as a duplicate.
\<close>

lemma left_swipe_insert_rejected:
  assumes "session st = Some uid" "\<not> remove_rejected r" "write_rejected r"
  shows "saved_rows_for uid pid (store (handleSwipe r pid Left st)) = []"
  using assms
  by (simp add: handleSwipe_Left_eq Let_def db_insert_interaction_def
      db_delete_saved_items_def db_insert_saved_item_def saved_rows_for_def)

lemma left_swipe_delete_rejected:
  assumes "session st = Some uid" "remove_rejected r" "saved_rows_for uid pid (store st) \<noteq> []"
  shows "saved_items (store (handleSwipe r pid Left st)) = saved_items (store st)"
  using assms
  by (auto simp: handleSwipe_Left_eq Let_def db_insert_interaction_def
      db_delete_saved_items_def db_insert_saved_item_def saved_rows_for_def saved_conflict_def
      list_ex_iff filter_empty_conv)

text \<open>
  The claim as it is written, exactly one saved row for the pair after every left swipe,
  fails when the gateway accepts the delete and rejects the insert: the handler shows
  the error and the pair, saved before, is left with no row.
\<close>

theorem left_swipe_rejected_insert_counterexample:
  "saved_rows_for ''u1'' ''p1'' (store demo_swipe_page) =
     [\<lparr>saved_id = ''s1'', saved_user_id = ''u1'', saved_product_id = ''p1''\<rparr>]
   \<and> saved_rows_for ''u1'' ''p1''
       (store (handleSwipe (accepting\<lparr>write_rejected := True\<rparr>) ''p1'' Left demo_swipe_page)) = []
   \<and> length (saved_rows_for ''u1'' ''p1''
       (store (handleSwipe (accepting\<lparr>write_rejected := True\<rparr>) ''p1'' Left demo_swipe_page)))
       \<noteq> 1
   \<and> last (effects (handleSwipe (accepting\<lparr>write_rejected := True\<rparr>) ''p1'' Left
       demo_swipe_page)) = Toast ''Error saving item''"
proof -
  let ?r = "accepting\<lparr>write_rejected := True\<rparr>"
  have s: "session demo_swipe_page = Some ''u1''"
    by (simp add: demo_swipe_page_def)
  have r: "\<not> remove_rejected ?r" "write_rejected ?r"
    by (simp_all add: accepting_def)
  have before: "saved_rows_for ''u1'' ''p1'' (store demo_swipe_page) =
      [\<lparr>saved_id = ''s1'', saved_user_id = ''u1'', saved_product_id = ''p1''\<rparr>]"
    by (simp add: demo_swipe_page_def demo_store_def saved_rows_for_def)
  have after: "saved_rows_for ''u1'' ''p1'' (store (handleSwipe ?r ''p1'' Left demo_swipe_page)) = []"
    by (rule left_swipe_insert_rejected [OF s r])
  have shown: "last (effects (handleSwipe ?r ''p1'' Left demo_swipe_page)) =
      Toast ''Error saving item''"
    unfolding handleSwipe_Left_eq [OF s]
    using r by (simp add: Let_def db_insert_saved_item_def)
  from before after shown show ?thesis
    by simp
qed

section \<open>The interaction is logged first and stays\<close>

text \<open>
  Claim C4. For a signed-in user and every decision \<open>(pid, d)\<close>, the first request of
  the handler is the insert of the interaction record with action \<open>d\<close>, issued once and
  before every request on the cart or the saved items. Whatever the gateway replies to
  those later requests, the interaction table is what the first insert left (the record
  appended when the gateway accepted it), and the product is in the swiped set and not
  among the visible products.
\<close>

theorem interaction_logged_before_write:
  assumes "session st = Some uid"
  shows "(\<exists>rest. effects (handleSwipe r pid d st) =
            effects st @
              [Set_swiped pid,
               Request (Insert_interaction \<lparr>user_id = uid, product_id = pid, action = Swiped d\<rparr>)]
              @ rest
          \<and> Request (Insert_interaction \<lparr>user_id = uid, product_id = pid, action = Swiped d\<rparr>)
              \<notin> set rest
          \<and> Request (if d = Right then Select_cart_item uid pid else Insert_saved_item uid pid)
              \<in> set rest)
     \<and> swipe_interactions (store (handleSwipe r pid d st)) =
          (if log_rejected r then swipe_interactions (store st)
           else swipe_interactions (store st) @
                  [\<lparr>user_id = uid, product_id = pid, action = Swiped d\<rparr>])
     \<and> pid \<in> swipedProducts (handleSwipe r pid d st)
     \<and> pid \<notin> prod_id ` set (visibleProducts (handleSwipe r pid d st))"
proof -
  have "\<exists>rest. effects (handleSwipe r pid d st) =
            effects st @
              [Set_swiped pid,
               Request (Insert_interaction \<lparr>user_id = uid, product_id = pid, action = Swiped d\<rparr>)]
              @ rest
          \<and> Request (Insert_interaction \<lparr>user_id = uid, product_id = pid, action = Swiped d\<rparr>)
              \<notin> set rest
          \<and> Request (if d = Right then Select_cart_item uid pid else Insert_saved_item uid pid)
              \<in> set rest"
    using assms
    by (cases d) (simp_all add: handleSwipe_Left_eq handleSwipe_Right_eq Let_def)
  moreover have "pid \<in> swipedProducts (handleSwipe r pid d st)"
    using assms by (simp add: handleSwipe_swiped)
  ultimately show ?thesis
    using assms by (auto simp: handleSwipe_interactions visibleProducts_def)
qed

theorem interaction_logged_before_write_witness:
  "session demo_swipe_page = Some ''u1''
   \<and> swipe_interactions (store (handleSwipe
        (accepting\<lparr>write_rejected := True, remove_rejected := True\<rparr>) ''p1'' Left demo_swipe_page)) =
       [\<lparr>user_id = ''u1'', product_id = ''p1'', action = Swiped Left\<rparr>]
   \<and> ''p1'' \<in> swipedProducts (handleSwipe
        (accepting\<lparr>write_rejected := True, remove_rejected := True\<rparr>) ''p1'' Left demo_swipe_page)"
proof -
  have s: "session demo_swipe_page = Some ''u1''"
    by (simp add: demo_swipe_page_def)
  show ?thesis
    using s interaction_logged_before_write [OF s,
        of "accepting\<lparr>write_rejected := True, remove_rejected := True\<rparr>" "''p1''" Left]
    by (simp add: demo_swipe_page_def demo_store_def accepting_def)
qed

section \<open>A swiped card does not come back\<close>

lemma fetchProducts_swiped: "swipedProducts (fetchProducts reply st) = swipedProducts st"
  by (simp add: fetchProducts_def toast_def emit_def Let_def split: sum.splits)

lemma preventDefault_page:
  "session (preventDefault st) = session st"
  "swipedProducts (preventDefault st) = swipedProducts st"
  by (simp_all add: preventDefault_def emit_def)

lemma handleKeyPress_swiped: "swipedProducts st \<subseteq> swipedProducts (handleKeyPress r key st)"
  by (auto simp: handleKeyPress_def handleSwipe_swiped preventDefault_page emit_def Let_def
      split: list.splits)

lemma step_swiped:
  assumes "e \<noteq> Page_mounted"
  shows "swipedProducts (snd s) \<subseteq> swipedProducts (snd (step s e))"
proof (cases s)
  case (Pair mounted st)
  show ?thesis
  proof (cases e)
    case (Drag_end r i x)
    with Pair show ?thesis
      by (auto simp: handleDragEnd_def handleSwipe_swiped Let_def)
  next
    case (Key_press r k)
    with Pair show ?thesis
      using handleKeyPress_swiped by auto
  next
    case (Products_fetched reply)
    with Pair show ?thesis
      by (simp add: fetchProducts_swiped)
  next
    case (Auth_changed a)
    with Pair show ?thesis
      by (simp add: authStateChange_def navigate_def emit_def Let_def)
  next
    case (Navigated route)
    with Pair show ?thesis
      by (simp add: navigate_def emit_def)
  next
    case Page_mounted
    with assms show ?thesis by simp
  qed
qed

lemma run_swiped:
  assumes "Page_mounted \<notin> set evs"
  shows "swipedProducts st \<subseteq> swipedProducts (run evs st)"
proof -
  have "swipedProducts (snd s) \<subseteq> swipedProducts (snd (foldl step s evs))" for s
    using assms
  proof (induction evs arbitrary: s)
    case Nil
    show ?case by simp
  next
    case (Cons e evs)
    have "swipedProducts (snd s) \<subseteq> swipedProducts (snd (step s e))"
      using Cons.prems by (intro step_swiped) auto
    also have "\<dots> \<subseteq> swipedProducts (snd (foldl step (step s e) evs))"
      using Cons.prems by (intro Cons.IH) simp
    finally show ?case by simp
  qed
  from this [of "(True, st)"] show ?thesis
    by (simp add: run_def)
qed

text \<open>
  Claim C9, as the code has it. For a signed-in user, the first effect of a swipe
  decision is the update of the swiped set with the product id, before every gateway
  request. The visible feed is the product list without the products of the swiped set.
  So for all replies of the gateway, also when it rejects every request, and after
  every later run of page events in which the page is not mounted anew (drags, key
  presses, product fetches, session changes, leaving the page) the product is in the
  swiped set and not in the visible feed.
\<close>

theorem swiped_card_never_reoffered:
  assumes "session st = Some uid" "Page_mounted \<notin> set evs"
  shows "(\<exists>rest. effects (handleSwipe r pid d st) = effects st @ Set_swiped pid # rest
            \<and> Set_swiped pid \<notin> set rest)
    \<and> set (visibleProducts (run evs (handleSwipe r pid d st))) =
        {p \<in> set (products (run evs (handleSwipe r pid d st))).
           prod_id p \<notin> swipedProducts (run evs (handleSwipe r pid d st))}
    \<and> pid \<in> swipedProducts (run evs (handleSwipe r pid d st))
    \<and> pid \<notin> prod_id ` set (visibleProducts (run evs (handleSwipe r pid d st)))"
proof -
  have first: "\<exists>rest. effects (handleSwipe r pid d st) = effects st @ Set_swiped pid # rest
      \<and> Set_swiped pid \<notin> set rest"
    using assms(1)
    by (cases d) (simp_all add: handleSwipe_Left_eq handleSwipe_Right_eq Let_def)
  have "pid \<in> swipedProducts (handleSwipe r pid d st)"
    using assms(1) by (simp add: handleSwipe_swiped)
  then have marked: "pid \<in> swipedProducts (run evs (handleSwipe r pid d st))"
    using run_swiped [OF assms(2)] by blast
  from first marked show ?thesis
    by (auto simp: visibleProducts_def)
qed

theorem swiped_card_never_reoffered_witness:
  "session demo_swipe_page = Some ''u1''
   \<and> Page_mounted \<notin> set [Products_fetched (Inr demo_products),
        Key_press rejecting ''ArrowRight'', Auth_changed None]
   \<and> ''p1'' \<in> swipedProducts
       (run [Products_fetched (Inr demo_products), Key_press rejecting ''ArrowRight'',
             Auth_changed None]
          (handleSwipe rejecting ''p1'' Left demo_swipe_page))
   \<and> ''p1'' \<notin> prod_id ` set (visibleProducts
       (run [Products_fetched (Inr demo_products), Key_press rejecting ''ArrowRight'',
             Auth_changed None]
          (handleSwipe rejecting ''p1'' Left demo_swipe_page)))"
proof -
  have s: "session demo_swipe_page = Some ''u1''"
    by (simp add: demo_swipe_page_def)
  have m: "Page_mounted \<notin> set [Products_fetched (Inr demo_products),
      Key_press rejecting ''ArrowRight'', Auth_changed None]"
    by simp
  show ?thesis
    using s m swiped_card_never_reoffered [OF s m, of rejecting "''p1''" Left]
    by blast
qed

text \<open>
  The claim as it is written, never offered again in the session, fails across a visit
  to another page. The swiped set is state of the component: after the swipe on \<open>p1\<close>
  the user opens the cart, comes back, the page is mounted with an empty set, the
  session provider answers, the products are fetched, and \<open>p1\<close> is the first visible
  card again.
\<close>

lemma demo_products_pass_filter:
  "dedupe {} (filter (\<lambda>p. toLowerCase (trim (name_or_empty p)) \<notin> set removedNames)
     demo_products) = demo_products"
  by code_simp

theorem swiped_card_offered_after_remount_counterexample:
  "''p1'' \<notin> prod_id ` set (visibleProducts (handleSwipe accepting ''p1'' Left demo_swipe_page))
   \<and> visibleProducts
       (run [Navigated ''/cart'', Page_mounted, Auth_changed (Some ''u1''),
             Products_fetched (Inr demo_products)]
          (handleSwipe accepting ''p1'' Left demo_swipe_page)) = demo_products
   \<and> prod_id (hd demo_products) = ''p1''"
proof -
  have s: "session demo_swipe_page = Some ''u1''"
    by (simp add: demo_swipe_page_def)
  have hidden: "''p1'' \<notin> prod_id ` set (visibleProducts
      (handleSwipe accepting ''p1'' Left demo_swipe_page))"
    using s by (auto simp: visibleProducts_def handleSwipe_swiped)
  have again: "visibleProducts
      (run [Navigated ''/cart'', Page_mounted, Auth_changed (Some ''u1''),
            Products_fetched (Inr demo_products)]
         (handleSwipe accepting ''p1'' Left demo_swipe_page)) = demo_products"
    by (simp add: run_def mount_def authStateChange_def navigate_def emit_def
        fetchProducts_def visibleProducts_def Let_def demo_products_pass_filter)
  from hidden again show ?thesis
    by (simp add: demo_products_def)
qed

section \<open>The arrow keys decide on the first visible card\<close>

text \<open>
  Claim C10. With no visible product a key press leaves the page as it is. Otherwise
  ArrowLeft (ArrowRight) prevents the default action of the key and runs the handler of
  a left (right) decision on the first visible product: the very call a release of that
  card makes after a drag past the threshold to the left (right).
\<close>

theorem arrow_key_is_committed_drag:
  "(visibleProducts st = [] \<longrightarrow> handleKeyPress r key st = st)
   \<and> (visibleProducts st \<noteq> [] \<and> x < - 100 \<longrightarrow>
        handleKeyPress r ''ArrowLeft'' st =
          handleSwipe r (prod_id (hd (visibleProducts st))) Left (preventDefault st)
        \<and> handleKeyPress r ''ArrowLeft'' st =
          handleDragEnd (handleSwipe r) (prod_id (hd (visibleProducts st))) x
            (preventDefault st))
   \<and> (visibleProducts st \<noteq> [] \<and> 100 < x \<longrightarrow>
        handleKeyPress r ''ArrowRight'' st =
          handleSwipe r (prod_id (hd (visibleProducts st))) Right (preventDefault st)
        \<and> handleKeyPress r ''ArrowRight'' st =
          handleDragEnd (handleSwipe r) (prod_id (hd (visibleProducts st))) x
            (preventDefault st))"
  by (auto simp: handleKeyPress_def visibleProducts_def handleDragEnd_def Let_def
      split: list.splits)

theorem arrow_key_is_committed_drag_witness:
  "visibleProducts demo_swipe_page \<noteq> []
   \<and> prod_id (hd (visibleProducts demo_swipe_page)) = ''p1''
   \<and> handleKeyPress accepting ''ArrowLeft'' demo_swipe_page =
       handleDragEnd (handleSwipe accepting) ''p1'' (- 150) (preventDefault demo_swipe_page)
   \<and> handleKeyPress accepting ''ArrowRight'' demo_swipe_page =
       handleSwipe accepting ''p1'' Right (preventDefault demo_swipe_page)
   \<and> visibleProducts (demo_swipe_page\<lparr>swipedProducts := {''p1'', ''p2''}\<rparr>) = []
   \<and> handleKeyPress accepting ''ArrowLeft'' (demo_swipe_page\<lparr>swipedProducts := {''p1'', ''p2''}\<rparr>) =
       demo_swipe_page\<lparr>swipedProducts := {''p1'', ''p2''}\<rparr>"
proof -
  have v: "visibleProducts demo_swipe_page = demo_products"
    by (simp add: visibleProducts_def demo_swipe_page_def)
  have e: "visibleProducts (demo_swipe_page\<lparr>swipedProducts := {''p1'', ''p2''}\<rparr>) = []"
    by (simp add: visibleProducts_def demo_swipe_page_def demo_products_def)
  have h: "prod_id (hd (visibleProducts demo_swipe_page)) = ''p1''"
    by (simp add: v demo_products_def)
  have n: "visibleProducts demo_swipe_page \<noteq> []"
    by (simp add: v demo_products_def)
  have lt: "(- 150 :: real) < - 100" and gt: "(100 :: real) < 150"
    by simp_all
  have l: "handleKeyPress accepting ''ArrowLeft'' demo_swipe_page =
      handleDragEnd (handleSwipe accepting) ''p1'' (- 150) (preventDefault demo_swipe_page)"
    using arrow_key_is_committed_drag
      [where st = demo_swipe_page and x = "- 150" and r = accepting] n lt
    unfolding h by blast
  have r: "handleKeyPress accepting ''ArrowRight'' demo_swipe_page =
      handleSwipe accepting ''p1'' Right (preventDefault demo_swipe_page)"
    using arrow_key_is_committed_drag
      [where st = demo_swipe_page and x = 150 and r = accepting] n gt
    unfolding h by blast
  have k: "handleKeyPress accepting ''ArrowLeft''
      (demo_swipe_page\<lparr>swipedProducts := {''p1'', ''p2''}\<rparr>) =
      demo_swipe_page\<lparr>swipedProducts := {''p1'', ''p2''}\<rparr>"
    using arrow_key_is_committed_drag
      [where st = "demo_swipe_page\<lparr>swipedProducts := {''p1'', ''p2''}\<rparr>"
        and r = accepting and key = "''ArrowLeft''"] e
    by blast
  from n h l r e k show ?thesis
    by blast
qed

section \<open>Checkout empties the cart\<close>

lemma requests_of_append [simp]: "requests_of (xs @ ys) = requests_of xs @ requests_of ys"
  by (simp add: requests_of_def)

lemma requests_of_simps [simp]:
  "requests_of [] = []"
  "requests_of (Request q # es) = q # requests_of es"
  "requests_of (Toast t # es) = requests_of es"
  "requests_of (Navigate n # es) = requests_of es"
  "requests_of (Console_warn w # es) = requests_of es"
  "requests_of (Set_swiped i # es) = requests_of es"
  "requests_of (Prevent_default # es) = requests_of es"
  "requests_of (Scroll_snap k # es) = requests_of es"
  by (simp_all add: requests_of_def)

lemma record_purchases_page:
  fixes st :: cart_page
  shows "cart_items (store (record_purchases rej uid k items st)) = cart_items (store st)"
    and "session (record_purchases rej uid k items st) = session st"
    and "cartItems (record_purchases rej uid k items st) = cartItems st"
  by (induction items arbitrary: k st)
    (simp_all add: page_defs console_warn_def db_insert_interaction_def)

lemma record_purchases_requests:
  "requests_of (effects (record_purchases rej uid k items st)) =
     requests_of (effects st) @ map (\<lambda>item. Insert_interaction (purchase_row uid item)) items"
  by (induction items arbitrary: k st)
    (simp_all add: page_defs console_warn_def db_insert_interaction_def purchase_row_def)

lemma record_purchases_interactions:
  "swipe_interactions (store (record_purchases rej uid k items st)) =
     swipe_interactions (store st) @
       map (\<lambda>(i, item). purchase_row uid item)
         (filter (\<lambda>(i, item). \<not> rej i) (enumerate k items))"
  by (induction items arbitrary: k st)
    (simp_all add: page_defs console_warn_def db_insert_interaction_def purchase_row_def)

text \<open>
  Claim C5, as the code has it. For a signed-in user with a non-empty cart list, checkout
  requests one insert of a \<open>purchased\<close> interaction per line, in order and whatever the
  replies to the earlier ones, and then the delete of the user's cart rows; the
  interaction table gains the records of the accepted inserts. For every pattern of
  rejected inserts (none, one, all), once the gateway accepts the delete no cart row of
  the user is left; the cart list of the page is emptied in every case.
\<close>

theorem checkout_clears_cart:
  assumes "session st = Some uid" "cartItems st \<noteq> []"
  shows "requests_of (effects (checkout r st)) =
           requests_of (effects st) @
             map (\<lambda>item. Insert_interaction (purchase_row uid item)) (cartItems st) @
             [Delete_cart_items uid]
    \<and> swipe_interactions (store (checkout r st)) =
         swipe_interactions (store st) @
           map (\<lambda>(i, item). purchase_row uid item)
             (filter (\<lambda>(i, item). \<not> purchase_rejected r i) (enumerate 0 (cartItems st)))
    \<and> (\<not> clear_rejected r \<longrightarrow>
          filter (\<lambda>c. cart_user_id c = uid) (cart_items (store (checkout r st))) = []
          \<and> cart_items (store (checkout r st)) =
              filter (\<lambda>c. cart_user_id c \<noteq> uid) (cart_items (store st)))
    \<and> cartItems (checkout r st) = []"
  using assms
  by (simp add: checkout_def page_defs navigate_def console_warn_def db_delete_cart_items_def
      record_purchases_page record_purchases_requests record_purchases_interactions)

theorem checkout_clears_cart_witness:
  "session demo_cart_page = Some ''u1'' \<and> cartItems demo_cart_page \<noteq> []
   \<and> cart_items (store (checkout
         \<lparr>purchase_rejected = (\<lambda>k. False), clear_rejected = False\<rparr> demo_cart_page)) =
       [\<lparr>cart_id = ''c2'', cart_user_id = ''u2'', cart_product_id = ''p1'', quantity = 1\<rparr>]
   \<and> cart_items (store (checkout
         \<lparr>purchase_rejected = (\<lambda>k. k = 1), clear_rejected = False\<rparr> demo_cart_page)) =
       [\<lparr>cart_id = ''c2'', cart_user_id = ''u2'', cart_product_id = ''p1'', quantity = 1\<rparr>]
   \<and> swipe_interactions (store (checkout
         \<lparr>purchase_rejected = (\<lambda>k. k = 1), clear_rejected = False\<rparr> demo_cart_page)) =
       [\<lparr>user_id = ''u1'', product_id = ''p1'', action = Purchased\<rparr>]
   \<and> cart_items (store (checkout
         \<lparr>purchase_rejected = (\<lambda>k. True), clear_rejected = False\<rparr> demo_cart_page)) =
       [\<lparr>cart_id = ''c2'', cart_user_id = ''u2'', cart_product_id = ''p1'', quantity = 1\<rparr>]
   \<and> swipe_interactions (store (checkout
         \<lparr>purchase_rejected = (\<lambda>k. True), clear_rejected = False\<rparr> demo_cart_page)) = []"
proof -
  have s: "session demo_cart_page = Some ''u1''" and n: "cartItems demo_cart_page \<noteq> []"
    by (simp_all add: demo_cart_page_def)
  show ?thesis
    using s n
      checkout_clears_cart [OF s n, of "\<lparr>purchase_rejected = (\<lambda>k. False), clear_rejected = False\<rparr>"]
      checkout_clears_cart [OF s n, of "\<lparr>purchase_rejected = (\<lambda>k. k = 1), clear_rejected = False\<rparr>"]
      checkout_clears_cart [OF s n, of "\<lparr>purchase_rejected = (\<lambda>k. True), clear_rejected = False\<rparr>"]
    by (simp add: demo_cart_page_def demo_products_def purchase_row_def enumerate_eq_zip upt_rec)
qed

text \<open>
  The claim as it is written, no cart row of the user after checkout, fails when the
  gateway rejects the delete: the handler logs a warning, announces the checkout as
  complete and empties the list of the page, and both rows of the user stay in the store.
  Here no insert was rejected.
\<close>

theorem checkout_rejected_delete_counterexample:
  "length (filter (\<lambda>c. cart_user_id c = ''u1'')
     (cart_items (store (checkout
        \<lparr>purchase_rejected = (\<lambda>k. False), clear_rejected = True\<rparr> demo_cart_page)))) = 2
   \<and> cart_items (store (checkout
        \<lparr>purchase_rejected = (\<lambda>k. False), clear_rejected = True\<rparr> demo_cart_page)) =
       cart_items (store demo_cart_page)
   \<and> cartItems (checkout
        \<lparr>purchase_rejected = (\<lambda>k. False), clear_rejected = True\<rparr> demo_cart_page) = []
   \<and> Console_warn ''clear cart failed'' \<in> set (effects (checkout
        \<lparr>purchase_rejected = (\<lambda>k. False), clear_rejected = True\<rparr> demo_cart_page))"
proof -
  have s: "session demo_cart_page = Some ''u1''" and n: "cartItems demo_cart_page \<noteq> []"
    by (simp_all add: demo_cart_page_def)
  have "cart_items (store demo_cart_page) =
      [\<lparr>cart_id = ''c1'', cart_user_id = ''u1'', cart_product_id = ''p1'', quantity = 1\<rparr>,
       \<lparr>cart_id = ''c2'', cart_user_id = ''u2'', cart_product_id = ''p1'', quantity = 1\<rparr>,
       \<lparr>cart_id = ''c3'', cart_user_id = ''u1'', cart_product_id = ''p2'', quantity = 1\<rparr>]"
    by (simp add: demo_cart_page_def)
  then show ?thesis
    using s n
    by (simp add: checkout_def page_defs navigate_def console_warn_def
        db_delete_cart_items_def record_purchases_page)
qed

text \<open>In general: when the gateway rejects the delete, the rows stay.\<close>

lemma checkout_clear_rejected:
  assumes "session st = Some uid" "cartItems st \<noteq> []" "clear_rejected r"
  shows "cart_items (store (checkout r st)) = cart_items (store st)
    \<and> cartItems (checkout r st) = []"
  using assms
  by (simp add: checkout_def page_defs navigate_def console_warn_def db_delete_cart_items_def
      record_purchases_page)

section \<open>Moving a saved item to the cart\<close>

lemma fetchSavedItems_store: "store (fetchSavedItems r st) = store st"
  by (simp add: fetchSavedItems_def page_defs split: sum.splits)

lemma fetchSavedItems_requests:
  "\<exists>rest. requests_of (effects (fetchSavedItems r st)) = requests_of (effects st) @ rest"
  by (simp add: fetchSavedItems_def page_defs split: sum.splits)

lemma handleRemove_store:
  "store (handleRemove r sid st) =
     snd (db_delete_saved_item_by_id (delete_rejected r) (session st) sid (store st))"
  by (simp add: handleRemove_def page_defs fetchSavedItems_store db_delete_saved_item_by_id_def)

lemma handleRemove_requests:
  "\<exists>rest. requests_of (effects (handleRemove r sid st)) =
     requests_of (effects st) @ Delete_saved_item_by_id sid # rest"
proof -
  obtain rest where
    "requests_of (effects (fetchSavedItems r
        (toast ''Item removed''
          (snd (call (Delete_saved_item_by_id sid)
             (db_delete_saved_item_by_id (delete_rejected r) (session st) sid) st))))) =
     requests_of (effects (toast ''Item removed''
          (snd (call (Delete_saved_item_by_id sid)
             (db_delete_saved_item_by_id (delete_rejected r) (session st) sid) st)))) @ rest"
    using fetchSavedItems_requests by blast
  then show ?thesis
    by (auto simp: handleRemove_def page_defs)
qed

text \<open>
  Claim C8, as the code has it. For a signed-in user, move-to-cart first requests the
  upsert of the cart row. When the upsert comes back with an error, nothing else is
  requested and the store, with the saved row, is as before. When it is accepted, the
  delete of the saved row is requested next and the pair has exactly one cart row;
  provided the gateway accepts that delete too and the saved row of the pair is the one
  moved, the pair has no saved row left.
\<close>

theorem move_to_cart_upsert_then_delete:
  assumes "session st = Some uid"
  shows "(fst (db_upsert_cart_item (upsert_rejected r)
                \<lparr>cart_id = upsert_id r, cart_user_id = uid, cart_product_id = pid,
                 quantity = 1\<rparr> (store st)) \<noteq> None \<longrightarrow>
            store (handleMoveToCart r pid sid st) = store st
            \<and> requests_of (effects (handleMoveToCart r pid sid st)) =
                requests_of (effects st) @ [Upsert_cart_item uid pid 1])
    \<and> (fst (db_upsert_cart_item (upsert_rejected r)
                \<lparr>cart_id = upsert_id r, cart_user_id = uid, cart_product_id = pid,
                 quantity = 1\<rparr> (store st)) = None \<longrightarrow>
            (\<exists>rest. requests_of (effects (handleMoveToCart r pid sid st)) =
                requests_of (effects st) @
                  [Upsert_cart_item uid pid 1, Delete_saved_item_by_id sid] @ rest)
            \<and> length (cart_rows_for uid pid (store (handleMoveToCart r pid sid st))) = 1
            \<and> (\<not> delete_rejected r
                \<and> saved_rows_for uid pid (store st) =
                    [\<lparr>saved_id = sid, saved_user_id = uid, saved_product_id = pid\<rparr>] \<longrightarrow>
                saved_rows_for uid pid (store (handleMoveToCart r pid sid st)) = []))"
proof -
  let ?row = "\<lparr>cart_id = upsert_id r, cart_user_id = uid, cart_product_id = pid, quantity = 1\<rparr>"
  let ?up = "db_upsert_cart_item (upsert_rejected r) ?row (store st)"
  let ?st1 = "snd (call (Upsert_cart_item uid pid 1) (db_upsert_cart_item (upsert_rejected r) ?row) st)"
  have st1: "store ?st1 = snd ?up" "session ?st1 = Some uid"
    "requests_of (effects ?st1) = requests_of (effects st) @ [Upsert_cart_item uid pid 1]"
    using assms by (simp_all add: page_defs)
  have failed: "handleMoveToCart r pid sid st = toast ''Error adding to cart'' ?st1"
    if "fst ?up \<noteq> None"
    using that assms by (simp add: handleMoveToCart_def page_defs)
  have unchanged: "snd ?up = store st" if "fst ?up \<noteq> None"
    using that
    by (simp add: db_upsert_cart_item_def db_insert_cart_item_def split: if_splits)
  have moved: "handleMoveToCart r pid sid st = toast ''Moved to cart!'' (handleRemove r sid ?st1)"
    if "fst ?up = None"
    using that assms by (simp add: handleMoveToCart_def page_defs)
  have added: "snd ?up = (store st)\<lparr>cart_items := cart_items (store st) @ [?row]\<rparr>"
    "cart_rows_for uid pid (store st) = []"
    if "fst ?up = None"
    using that
    by (auto simp: db_upsert_cart_item_def db_insert_cart_item_def cart_conflict_def
        cart_rows_for_def list_ex_iff filter_empty_conv split: if_splits)
  have a: "store (handleMoveToCart r pid sid st) = store st
      \<and> requests_of (effects (handleMoveToCart r pid sid st)) =
          requests_of (effects st) @ [Upsert_cart_item uid pid 1]"
    if "fst ?up \<noteq> None"
    using st1 unchanged [OF that] by (simp add: failed [OF that] toast_def emit_def)
  have b: "\<exists>rest. requests_of (effects (handleMoveToCart r pid sid st)) =
      requests_of (effects st) @ [Upsert_cart_item uid pid 1, Delete_saved_item_by_id sid] @ rest"
    if "fst ?up = None"
    using handleRemove_requests [of r sid ?st1] st1(3)
    by (auto simp: moved [OF that] toast_def emit_def)
  have store: "store (handleMoveToCart r pid sid st) =
      snd (db_delete_saved_item_by_id (delete_rejected r) (Some uid) sid
        ((store st)\<lparr>cart_items := cart_items (store st) @ [?row]\<rparr>))"
    if "fst ?up = None"
    using st1 added(1) [OF that]
    by (simp add: moved [OF that] toast_def emit_def handleRemove_store)
  have c: "length (cart_rows_for uid pid (store (handleMoveToCart r pid sid st))) = 1"
    if "fst ?up = None"
    using added(2) [OF that]
    by (simp add: store [OF that] db_delete_saved_item_by_id_def cart_rows_for_def)
  have d: "saved_rows_for uid pid (store (handleMoveToCart r pid sid st)) = []"
    if "fst ?up = None" "\<not> delete_rejected r"
      "saved_rows_for uid pid (store st) =
        [\<lparr>saved_id = sid, saved_user_id = uid, saved_product_id = pid\<rparr>]"
  proof -
    have "\<forall>s \<in> set (saved_items (store st)).
        saved_user_id s = uid \<and> saved_product_id s = pid \<longrightarrow> saved_id s = sid"
    proof (intro ballI impI)
      fix s assume "s \<in> set (saved_items (store st))"
        and "saved_user_id s = uid \<and> saved_product_id s = pid"
      then have "s \<in> set (saved_rows_for uid pid (store st))"
        by (simp add: saved_rows_for_def)
      then show "saved_id s = sid"
        using that(3) by simp
    qed
    then show ?thesis
      using that(2)
      by (auto simp: store [OF that(1)] db_delete_saved_item_by_id_def saved_rows_for_def
          filter_empty_conv)
  qed
  show ?thesis
    using a b c d by blast
qed

theorem move_to_cart_upsert_then_delete_witness:
  "session demo_saved_page = Some ''u1''
   \<and> saved_rows_for ''u1'' ''p1'' (store demo_saved_page) =
       [\<lparr>saved_id = ''s1'', saved_user_id = ''u1'', saved_product_id = ''p1''\<rparr>]
   \<and> saved_rows_for ''u1'' ''p1''
       (store (handleMoveToCart demo_saved_replies ''p1'' ''s1'' demo_saved_page)) = []
   \<and> length (cart_rows_for ''u1'' ''p1''
       (store (handleMoveToCart demo_saved_replies ''p1'' ''s1'' demo_saved_page))) = 1
   \<and> store (handleMoveToCart (demo_saved_replies\<lparr>upsert_rejected := True\<rparr>) ''p1'' ''s1''
        demo_saved_page) = store demo_saved_page"
proof -
  have s: "session demo_saved_page = Some ''u1''"
    by (simp add: demo_saved_page_def)
  show ?thesis
    using s move_to_cart_upsert_then_delete [OF s, of demo_saved_replies "''p1''" "''s1''"]
      move_to_cart_upsert_then_delete
        [OF s, of "demo_saved_replies\<lparr>upsert_rejected := True\<rparr>" "''p1''" "''s1''"]
    by (simp add: demo_saved_page_def demo_store_def demo_saved_replies_def saved_rows_for_def
        db_upsert_cart_item_def db_insert_cart_item_def cart_conflict_def)
qed

text \<open>
  An accepted upsert followed by a rejected delete leaves the product both in the cart
  and among the saved items.
\<close>

lemma move_to_cart_delete_rejected:
  assumes "session st = Some uid" "delete_rejected r"
    "fst (db_upsert_cart_item (upsert_rejected r)
       \<lparr>cart_id = upsert_id r, cart_user_id = uid, cart_product_id = pid, quantity = 1\<rparr>
       (store st)) = None"
  shows "saved_items (store (handleMoveToCart r pid sid st)) = saved_items (store st)"
  using assms
  by (auto simp: handleMoveToCart_def page_defs handleRemove_store
      db_delete_saved_item_by_id_def db_upsert_cart_item_def db_insert_cart_item_def
      split: if_splits)

text \<open>
  The claim as it is written, no saved row and one cart row for the pair once the move
  succeeded, fails when the gateway accepts the upsert and rejects the delete: the
  handler shows the error of the removal and then announces the move as done, and the
  pair has its cart row and still its saved row.
\<close>

theorem move_to_cart_rejected_delete_counterexample:
  "fst (db_upsert_cart_item False
      \<lparr>cart_id = ''n1'', cart_user_id = ''u1'', cart_product_id = ''p1'', quantity = 1\<rparr>
      (store demo_saved_page)) = None
   \<and> saved_rows_for ''u1'' ''p1''
       (store (handleMoveToCart (demo_saved_replies\<lparr>delete_rejected := True\<rparr>) ''p1'' ''s1''
          demo_saved_page)) =
       [\<lparr>saved_id = ''s1'', saved_user_id = ''u1'', saved_product_id = ''p1''\<rparr>]
   \<and> length (saved_rows_for ''u1'' ''p1''
       (store (handleMoveToCart (demo_saved_replies\<lparr>delete_rejected := True\<rparr>) ''p1'' ''s1''
          demo_saved_page))) \<noteq> 0
   \<and> cart_rows_for ''u1'' ''p1''
       (store (handleMoveToCart (demo_saved_replies\<lparr>delete_rejected := True\<rparr>) ''p1'' ''s1''
          demo_saved_page)) =
       [\<lparr>cart_id = ''n1'', cart_user_id = ''u1'', cart_product_id = ''p1'', quantity = 1\<rparr>]
   \<and> effects (handleMoveToCart (demo_saved_replies\<lparr>delete_rejected := True\<rparr>) ''p1'' ''s1''
       demo_saved_page) =
       [Request (Upsert_cart_item ''u1'' ''p1'' 1), Request (Delete_saved_item_by_id ''s1''),
        Toast ''Error removing item'', Toast ''Moved to cart!'']"
proof -
  have store: "store demo_saved_page =
      \<lparr>cart_items =
         [\<lparr>cart_id = ''c1'', cart_user_id = ''u1'', cart_product_id = ''p2'', quantity = 3\<rparr>],
       saved_items = [\<lparr>saved_id = ''s1'', saved_user_id = ''u1'', saved_product_id = ''p1''\<rparr>],
       swipe_interactions = []\<rparr>"
    and s: "session demo_saved_page = Some ''u1''"
    and e: "effects demo_saved_page = []"
    by (simp_all add: demo_saved_page_def demo_store_def)
  show ?thesis
    using store s e
    by (simp add: handleMoveToCart_def handleRemove_def page_defs demo_saved_replies_def
        db_upsert_cart_item_def db_insert_cart_item_def cart_conflict_def
        db_delete_saved_item_by_id_def saved_rows_for_def cart_rows_for_def)
qed

section \<open>The two copies of the product filter\<close>

lemma removedNames_eq:
  "removedNames =
     [''yes'', ''hr'', ''slim jean'', ''ripped jeans'', ''knit sweater'', ''trechn coart'',
      ''classic white shirt'', ''wireless headphones'']"
  by code_simp

text \<open>
  Claim C6. The claim is that the dashboard filters a product list as the feed does.
  The feed compares the trimmed lower-case name with the deny-list; the dashboard
  compares the lower-case name untrimmed, and trims for the duplicates only. On the
  listing \<open>"Ripped Jeans "\<close> the feed drops the product and the dashboard keeps it.
\<close>

theorem seller_filter_keeps_padded_denied_name:
  "products (fetchProducts (Inr [padded_product]) demo_swipe_page) = []
   \<and> seller_products (Seller_fetchProducts (Some [padded_product]) demo_seller_page) =
       [padded_product]"
  by code_simp

text \<open>On names without white space at their ends the two filters agree.\<close>

lemma seller_filter_agrees_on_trimmed_names:
  assumes "\<forall>p \<in> set data. trim (name_or_empty p) = name_or_empty p"
  shows "seller_products (Seller_fetchProducts (Some data) st') =
     products (fetchProducts (Inr data) st)"
proof -
  have "filter (\<lambda>p. (case name p of None \<Rightarrow> [] | Some n \<Rightarrow> toLowerCase n) \<notin> set removedNames) data =
      filter (\<lambda>p. toLowerCase (trim (name_or_empty p)) \<notin> set removedNames) data"
    using assms
    by (intro filter_cong refl) (auto simp: name_or_empty_def toLowerCase_def split: option.splits)
  then show ?thesis
    by (simp add: fetchProducts_def Seller_fetchProducts_def emit_def Let_def)
qed

section \<open>The conversion rate\<close>

text \<open>
  The integer nearest to ten times a value that is close to a fraction with a small
  denominator is also nearest to ten times the fraction.
\<close>

lemma nearest_tenth_of_close:
  fixes a :: rat and r v :: nat
  assumes v: "0 < v" "v < 2 ^ 32"
    and close: "\<bar>a - 100 * of_nat r / of_nat v\<bar> \<le> 1 / 2 ^ 45"
  shows "\<bar>of_int \<lfloor>a * 10 + 1 / 2\<rfloor> / 10 - 100 * of_nat r / of_nat v\<bar> \<le> (1 / 20 :: rat)"
proof -
  define m where "m = \<lfloor>a * 10 + 1 / 2\<rfloor>"
  define V :: rat where "V = of_nat v"
  define R :: rat where "R = of_nat r"
  define X :: rat where "X = 100 * R / V"
  define e :: rat where "e = 1 / 2 ^ 45"
  have "(of_nat v :: rat) < of_nat (2 ^ 32)"
    using v(2) by (simp only: of_nat_less_iff)
  then have V: "0 < V" "V < 2 ^ 32"
    using v(1) by (simp_all add: V_def)
  have XV: "X * V = 100 * R"
    using V(1) by (simp add: X_def)
  have e: "0 \<le> e" "20 * e * 2 ^ 32 < 1"
    by (simp_all add: e_def)
  have "20 * e * V \<le> 20 * e * 2 ^ 32"
    using e(1) V(2) by (intro mult_left_mono) simp_all
  then have small: "20 * e * V < 1"
    using e(2) by linarith
  have fl: "of_int m \<le> 10 * a + 1 / 2" "10 * a + 1 / 2 < of_int m + 1"
    unfolding m_def using floor_correct [of "a * 10 + 1 / 2"] by (simp_all add: mult.commute)
  have close': "\<bar>a - X\<bar> \<le> e"
    using close by (simp only: X_def V_def R_def e_def)
  then have ax: "a \<le> X + e" "X - e \<le> a"
    unfolding abs_le_iff by linarith+
  have up: "2 * of_int m * V - 2000 * R - V \<le> 20 * e * V"
  proof -
    have "of_int m \<le> 10 * X + 10 * e + 1 / 2"
      using fl(1) ax(1) by linarith
    then have "of_int m * V \<le> (10 * X + 10 * e + 1 / 2) * V"
      using V(1) by (intro mult_right_mono) simp_all
    also have "\<dots> = 10 * (X * V) + 10 * e * V + V / 2"
      by (simp add: algebra_simps)
    finally show ?thesis
      unfolding XV by linarith
  qed
  have lo: "- (20 * e * V) < 2 * of_int m * V - 2000 * R + V"
  proof -
    have "10 * X - 10 * e - 1 / 2 < of_int m"
      using fl(2) ax(2) by linarith
    then have "(10 * X - 10 * e - 1 / 2) * V < of_int m * V"
      using V(1) by (intro mult_strict_right_mono) simp_all
    moreover have "(10 * X - 10 * e - 1 / 2) * V = 10 * (X * V) - 10 * e * V - V / 2"
      by (simp add: algebra_simps)
    ultimately show ?thesis
      unfolding XV by linarith
  qed
  define k where "k = 2 * m * int v - 2000 * int r"
  have k: "(of_int k :: rat) = 2 * of_int m * V - 2000 * R"
    by (simp add: k_def V_def R_def)
  have Vi: "V = of_int (int v)"
    by (simp add: V_def)
  have "(of_int (k - int v) :: rat) < of_int 1"
    using up small unfolding of_int_diff k Vi [symmetric] by simp
  then have k1: "k - int v \<le> 0"
    unfolding of_int_less_iff by linarith
  have "(of_int (- 1) :: rat) < of_int (k + int v)"
    using lo small unfolding of_int_add k Vi [symmetric] by simp
  then have k2: "0 \<le> k + int v"
    unfolding of_int_less_iff by linarith
  have "(of_int k :: rat) \<le> of_int (int v)" "(of_int (- int v) :: rat) \<le> of_int k"
    unfolding of_int_le_iff using k1 k2 by linarith+
  then have "(of_int k :: rat) \<le> V" "- V \<le> of_int k"
    by (simp_all add: V_def)
  then have "\<bar>of_int k :: rat\<bar> \<le> V"
    unfolding abs_le_iff by linarith
  then have "\<bar>2 * of_int m * V - 2000 * R\<bar> \<le> V"
    unfolding k .
  moreover have "2 * of_int m * V - 2000 * R = (of_int m / 10 - X) * (20 * V)"
    using XV by (simp add: algebra_simps)
  ultimately have "\<bar>of_int m / 10 - X\<bar> * (20 * V) \<le> V"
    using V(1) by (simp add: abs_mult)
  then have "\<bar>of_int m / 10 - X\<bar> * 20 \<le> 1"
    using V(1) by (simp add: mult.assoc [symmetric])
  then have "\<bar>of_int m / 10 - X\<bar> \<le> 1 / 20"
    by simp
  then show ?thesis
    unfolding m_def X_def V_def R_def .
qed

text \<open>The rate computed with rounding operations is close to the exact one.\<close>

lemma rounded_rate_close:
  fixes r v :: nat
  assumes ops: "rounds_to_nearest ops"
    and v: "0 < v" "v < 2 ^ 32" and rv: "r \<le> v"
  defines "x' \<equiv> num_mul ops (num_div ops (of_nat r) (of_nat v)) 100"
  shows "0 \<le> x'" and "\<bar>x' - 100 * of_nat r / of_nat v\<bar> \<le> 1 / 2 ^ 45"
proof -
  define V :: rat where "V = of_nat v"
  define R :: rat where "R = of_nat r"
  define q where "q = R / V"
  define q' where "q' = num_div ops R V"
  define p where "p = q' * 100"
  define u :: rat where "u = 1 / 2 ^ 53"
  have u: "0 < u" "u \<le> 1 / 2"
    by (simp_all add: u_def)
  have div_ok: "\<bar>num_div ops x y - x / y\<bar> \<le> \<bar>x / y\<bar> / 2 ^ 53"
    if "y \<noteq> 0" "double_range (x / y)" for x y
    using ops that unfolding rounds_to_nearest_def by blast
  have mul_ok: "\<bar>num_mul ops x y - x * y\<bar> \<le> \<bar>x * y\<bar> / 2 ^ 53"
    if "double_range (x * y)" for x y
    using ops that unfolding rounds_to_nearest_def by blast
  have "(of_nat v :: rat) < of_nat (2 ^ 32)"
    using v(2) by (simp only: of_nat_less_iff)
  then have V: "0 < V" "V < 2 ^ 32"
    using v(1) by (simp_all add: V_def)
  have R: "0 \<le> R" "R \<le> V"
    using rv by (simp_all add: R_def V_def)
  have q: "0 \<le> q" "q \<le> 1"
    using V(1) R by (simp_all add: q_def)
  have qlow: "1 / 2 ^ 32 \<le> q" if "r \<noteq> 0"
  proof -
    have "1 \<le> r"
      using that by simp
    then have "(of_nat 1 :: rat) \<le> of_nat r"
      by (simp only: of_nat_le_iff)
    then have "1 \<le> R"
      by (simp add: R_def)
    then have le: "1 / V \<le> R / V"
      using V(1) by (simp add: divide_right_mono)
    have "1 / 2 ^ 32 \<le> 1 / V"
      using V by (simp add: frac_le)
    also note le
    finally show ?thesis
      unfolding q_def .
  qed
  have "double_range q"
  proof (cases "r = 0")
    case True
    then show ?thesis by (simp add: double_range_def q_def R_def)
  next
    case False
    have low: "1 / 2 ^ 1022 \<le> q"
      using qlow [OF False] by (rule order_trans [rotated]) simp
    have high: "q \<le> 2 ^ 1023"
      using q(2) by (rule order_trans) simp
    have "\<bar>q\<bar> = q"
      using q(1) by simp
    then show ?thesis
      using low high by (simp add: double_range_def)
  qed
  then have "\<bar>q' - q\<bar> \<le> \<bar>q\<bar> / 2 ^ 53"
    using V(1) unfolding q_def q'_def by (intro div_ok) simp_all
  then have dq: "\<bar>q' - q\<bar> \<le> q * u"
    using q(1) by (simp add: u_def)
  then have q': "q - q * u \<le> q'" "q' \<le> q + q * u"
    unfolding abs_le_iff by linarith+
  have u0: "0 \<le> u"
    using u(1) by simp
  have qu: "q * u \<le> q * (1 / 2)" "q * u \<le> u"
    using mult_left_mono [OF u(2) q(1)] mult_right_mono [OF q(2) u0] by simp_all
  have q'0: "0 \<le> q'" "q' \<le> 1 + u" "q / 2 \<le> q'"
    using q' q qu by linarith+
  have p: "0 \<le> p" "p \<le> 150"
    using q'0 u(2) by (simp_all add: p_def)
  have "double_range p"
  proof (cases "r = 0")
    case True
    then have "q = 0" by (simp add: q_def R_def)
    then have "q' = 0" using q' by simp
    then show ?thesis by (simp add: double_range_def p_def)
  next
    case False
    have "1 / 2 ^ 33 \<le> q'"
      using qlow [OF False] q'0(3) by simp
    then have "100 / 2 ^ 33 \<le> p"
      by (simp add: p_def)
    then have low: "1 / 2 ^ 1022 \<le> p"
      by (rule order_trans [rotated]) simp
    have high: "p \<le> 2 ^ 1023"
      using p(2) by (rule order_trans) simp
    have "\<bar>p\<bar> = p"
      using p(1) by simp
    then show ?thesis
      using low high by (simp add: double_range_def)
  qed
  then have "\<bar>num_mul ops q' 100 - q' * 100\<bar> \<le> \<bar>q' * 100\<bar> / 2 ^ 53"
    unfolding p_def by (rule mul_ok)
  then have dx: "\<bar>x' - p\<bar> \<le> p * u"
    using p(1) by (simp add: x'_def q'_def R_def V_def p_def u_def)
  have pu: "p * u \<le> p * (1 / 2)" "p * u \<le> 150 * u"
    by (rule mult_left_mono [OF u(2) p(1)], rule mult_right_mono [OF p(2) u0])
  show "0 \<le> x'"
    using dx pu(1) p(1) unfolding abs_le_iff by linarith
  note b1 = pu(2)
  have "p - 100 * q = 100 * (q' - q)"
    by (simp add: p_def algebra_simps)
  then have "\<bar>p - 100 * q\<bar> = \<bar>100 * (q' - q)\<bar>"
    by (simp only:)
  also have "\<dots> = 100 * \<bar>q' - q\<bar>"
    by (simp only: abs_mult abs_numeral)
  finally have "\<bar>p - 100 * q\<bar> = 100 * \<bar>q' - q\<bar>" .
  moreover have "\<bar>q' - q\<bar> \<le> u"
    using dq qu(2) by (rule order_trans)
  ultimately have b2: "\<bar>p - 100 * q\<bar> \<le> 100 * u"
    by simp
  have "\<bar>x' - 100 * q\<bar> \<le> \<bar>x' - p\<bar> + \<bar>p - 100 * q\<bar>"
    by linarith
  then have "\<bar>x' - 100 * q\<bar> \<le> 250 * u"
    using dx b1 b2 by linarith
  moreover have "250 * u \<le> 1 / 2 ^ 45"
    by (simp add: u_def)
  ultimately show "\<bar>x' - 100 * of_nat r / of_nat v\<bar> \<le> 1 / 2 ^ 45"
    by (simp add: q_def R_def V_def)
qed

lemma analytics_counts:
  "length rows = length (filter (\<lambda>s. row_action s = Swiped Right) rows)
     + length (filter (\<lambda>s. row_action s = Swiped Left) rows)
     + length (filter (\<lambda>s. row_action s = Purchased) rows)"
proof (induction rows)
  case Nil
  show ?case by simp
next
  case (Cons s rows)
  then show ?case
  proof (cases "row_action s")
    case (Swiped d)
    with Cons show ?thesis by (cases d) simp_all
  next
    case Purchased
    with Cons show ?thesis by simp
  qed
qed

text \<open>
  Claim C7. After the analytics are fetched, \<open>totalViews\<close> is the number of all fetched
  records (the right and left swipes and the purchases together) and \<open>totalSwipesRight\<close>
  the number of those with action right. The conversion rate is \<open>"0"\<close> when there is no
  record; otherwise it is the decimal writing, with one digit after the point, of a
  number of tenths nearest to \<open>totalSwipesRight / totalViews * 100\<close>. This holds for
  number operations that round to nearest, and for the lengths an array can have.
\<close>

theorem conversion_rate_rounds_ratio:
  assumes "rounds_to_nearest ops" "length rows < 2 ^ 32"
  shows "totalViews (seller_analytics (fetchAnalytics ops (Some rows) st)) = length rows
    \<and> totalSwipesRight (seller_analytics (fetchAnalytics ops (Some rows) st)) =
        length (filter (\<lambda>s. row_action s = Swiped Right) rows)
    \<and> length rows =
        totalSwipesRight (seller_analytics (fetchAnalytics ops (Some rows) st))
        + totalSwipesLeft (seller_analytics (fetchAnalytics ops (Some rows) st))
        + length (filter (\<lambda>s. row_action s = Purchased) rows)
    \<and> (rows = [] \<longrightarrow>
          conversionRate ops (seller_analytics (fetchAnalytics ops (Some rows) st)) = ''0'')
    \<and> (rows \<noteq> [] \<longrightarrow>
          (\<exists>n. conversionRate ops (seller_analytics (fetchAnalytics ops (Some rows) st)) =
                 decimal (n div 10) @ ''.'' @ decimal (n mod 10)
               \<and> \<bar>of_nat n / 10
                   - 100 * of_nat (length (filter (\<lambda>s. row_action s = Swiped Right) rows))
                     / of_nat (length rows)\<bar> \<le> (1 / 20 :: rat)))"
proof -
  let ?a = "seller_analytics (fetchAnalytics ops (Some rows) st)"
  let ?r = "length (filter (\<lambda>s. row_action s = Swiped Right) rows)"
  let ?v = "length rows"
  let ?x = "num_mul ops (num_div ops (of_nat ?r) (of_nat ?v)) 100"
  have a: "totalViews ?a = ?v" "totalSwipesRight ?a = ?r"
    "totalSwipesLeft ?a = length (filter (\<lambda>s. row_action s = Swiped Left) rows)"
    by (simp_all add: fetchAnalytics_def Let_def)
  have rate: "\<exists>n. conversionRate ops ?a = decimal (n div 10) @ ''.'' @ decimal (n mod 10)
      \<and> \<bar>of_nat n / 10 - 100 * of_nat ?r / of_nat ?v\<bar> \<le> (1 / 20 :: rat)"
    if "rows \<noteq> []"
  proof -
    have v: "0 < ?v" "?r \<le> ?v"
      using that by simp_all
    have pos: "0 \<le> ?x" and close: "\<bar>?x - 100 * of_nat ?r / of_nat ?v\<bar> \<le> 1 / 2 ^ 45"
      using rounded_rate_close [OF assms(1) v(1) assms(2) v(2)] by simp_all
    have str: "conversionRate ops ?a =
        decimal (tenths ?x div 10) @ ''.'' @ decimal (tenths ?x mod 10)"
      using v(1) pos by (simp add: conversionRate_def a toFixed1_def Let_def)
    have fl: "0 \<le> \<lfloor>?x * 10 + 1 / 2\<rfloor>"
      using pos by simp
    have "(of_nat (tenths ?x) :: rat) = of_int \<lfloor>?x * 10 + 1 / 2\<rfloor>"
      using pos fl by (simp add: tenths_def)
    then have "\<bar>of_nat (tenths ?x) / 10 - 100 * of_nat ?r / of_nat ?v\<bar> \<le> (1 / 20 :: rat)"
      using nearest_tenth_of_close [OF v(1) assms(2) close] by simp
    with str show ?thesis by blast
  qed
  have zero: "conversionRate ops ?a = ''0''" if "rows = []"
    using that a(1) by (simp add: conversionRate_def)
  have all: "?v = totalSwipesRight ?a + totalSwipesLeft ?a
      + length (filter (\<lambda>s. row_action s = Purchased) rows)"
    unfolding a by (rule analytics_counts)
  from a(1) a(2) all zero rate show ?thesis
    by blast
qed

lemma exact_ops_round: "rounds_to_nearest exact_ops"
  by (simp add: rounds_to_nearest_def exact_ops_def)

text \<open>
  The scenario of the specification: three right swipes and one left swipe give four
  views and the rate \<open>"75.0"\<close>.
\<close>

lemma demo_rate:
  "conversionRate exact_ops (seller_analytics (fetchAnalytics exact_ops (Some demo_rows)
      demo_seller_page)) = ''75.0''"
  by code_simp

theorem conversion_rate_rounds_ratio_witness:
  "rounds_to_nearest exact_ops \<and> length demo_rows < 2 ^ 32 \<and> demo_rows \<noteq> []
   \<and> totalViews (seller_analytics (fetchAnalytics exact_ops (Some demo_rows) demo_seller_page)) =
       length demo_rows
   \<and> length demo_rows = 4
   \<and> totalSwipesRight
       (seller_analytics (fetchAnalytics exact_ops (Some demo_rows) demo_seller_page)) =
       length (filter (\<lambda>s. row_action s = Swiped Right) demo_rows)
   \<and> length (filter (\<lambda>s. row_action s = Swiped Right) demo_rows) = 3
   \<and> (\<exists>n. conversionRate exact_ops
             (seller_analytics (fetchAnalytics exact_ops (Some demo_rows) demo_seller_page)) =
             decimal (n div 10) @ ''.'' @ decimal (n mod 10)
           \<and> \<bar>of_nat n / 10
               - 100 * of_nat (length (filter (\<lambda>s. row_action s = Swiped Right) demo_rows))
                 / of_nat (length demo_rows)\<bar> \<le> (1 / 20 :: rat))
   \<and> conversionRate exact_ops
       (seller_analytics (fetchAnalytics exact_ops (Some []) demo_seller_page)) = ''0''"
proof -
  have l: "length demo_rows < 2 ^ 32" "demo_rows \<noteq> []" "length demo_rows = 4"
    "length (filter (\<lambda>s. row_action s = Swiped Right) demo_rows) = 3"
    by (simp_all add: demo_rows_def)
  have e: "length ([] :: swipe_row list) < 2 ^ 32"
    by simp
  from exact_ops_round l
    conversion_rate_rounds_ratio [OF exact_ops_round l(1), of demo_seller_page]
    conversion_rate_rounds_ratio [OF exact_ops_round e, of demo_seller_page]
  show ?thesis
    by blast
qed

section \<open>The earlier revision of the swipe page\<close>

text \<open>
  \<open>src/pages/Swipe.tsx\<close> writes with one upsert where the later revision looks the cart
  row up, or deletes the saved row, first. With the unique constraints of the schema it
  marks, logs and keeps the cart as the later revision does; a left swipe on a saved
  pair is refused as a duplicate, so the old row stays rather than being replaced.
\<close>

lemma handleSwipe_upsert_eq:
  assumes "session st = Some uid"
  shows "handleSwipe_upsert r pid d st =
     (let row = \<lparr>user_id = uid, product_id = pid, action = Swiped d\<rparr>;
          db1 = snd (db_insert_interaction (log_rejected r) row (store st));
          up = (if d = Right
                then db_upsert_cart_item (write_rejected r)
                       \<lparr>cart_id = new_id r, cart_user_id = uid, cart_product_id = pid,
                        quantity = 1\<rparr> db1
                else db_upsert_saved_item (write_rejected r)
                       \<lparr>saved_id = new_id r, saved_user_id = uid, saved_product_id = pid\<rparr>
                       db1)
      in st\<lparr>store := snd up,
            effects := effects st @
              [Set_swiped pid, Request (Insert_interaction row),
               Request (if d = Right then Upsert_cart_item uid pid 1
                        else Upsert_saved_item uid pid),
               Toast (if d = Right
                      then (if fst up \<noteq> None then ''Error adding to cart''
                            else ''Added to cart!'')
                      else (if fst up \<noteq> None then ''Error saving item''
                            else ''Saved for later''))],
            swipedProducts := insert pid (swipedProducts st)\<rparr>)"
  using assms by (cases d) (simp_all add: handleSwipe_upsert_def page_defs)

lemma upsert_revision_right_swipe_cart:
  assumes "session st = Some uid"
  shows "cart_items (store (handleSwipe_upsert r pid Right st)) =
     (if cart_rows_for uid pid (store st) = [] \<and> \<not> write_rejected r
         \<and> new_id r \<notin> cart_id ` set (cart_items (store st))
      then cart_items (store st) @
             [\<lparr>cart_id = new_id r, cart_user_id = uid, cart_product_id = pid, quantity = 1\<rparr>]
      else cart_items (store st))"
  using assms
  by (auto simp: handleSwipe_upsert_eq Let_def db_insert_interaction_def
      db_upsert_cart_item_def db_insert_cart_item_def cart_rows_for_def cart_conflict_def
      list_ex_iff filter_empty_conv image_iff Bex_def)

lemma upsert_revision_same_cart_as_lookup_revision:
  assumes "session st = Some uid"
  shows "cart_items (store (handleSwipe_upsert r pid Right st)) =
     cart_items (store (handleSwipe r pid Right st))"
  by (simp only: upsert_revision_right_swipe_cart [OF assms] right_swipe_cart [OF assms])

lemma upsert_revision_left_swipe_keeps_row:
  assumes "session st = Some uid" "saved_rows_for uid pid (store st) \<noteq> []"
  shows "saved_items (store (handleSwipe_upsert r pid Left st)) = saved_items (store st)"
  using assms
  by (auto simp: handleSwipe_upsert_eq Let_def db_insert_interaction_def
      db_upsert_saved_item_def db_insert_saved_item_def saved_rows_for_def saved_conflict_def
      list_ex_iff filter_empty_conv)

lemma upsert_revision_logs_and_marks:
  assumes "session st = Some uid"
  shows "swipe_interactions (store (handleSwipe_upsert r pid d st)) =
       swipe_interactions (store (handleSwipe r pid d st))
    \<and> swipedProducts (handleSwipe_upsert r pid d st) = insert pid (swipedProducts st)
    \<and> take 2 (drop (length (effects st)) (effects (handleSwipe_upsert r pid d st))) =
       [Set_swiped pid,
        Request (Insert_interaction \<lparr>user_id = uid, product_id = pid, action = Swiped d\<rparr>)]"
  using assms
  by (cases d)
    (simp_all add: handleSwipe_upsert_eq handleSwipe_interactions Let_def
      db_insert_interaction_def db_upsert_cart_item_def db_insert_cart_item_def
      db_upsert_saved_item_def db_insert_saved_item_def)

end
